theory Spec2Isabelle
  imports Complex_Main "HOL-Library.Sublist"
begin

section \<open>Numbers\<close>

text \<open>
  A TypeScript \<open>number\<close> is modelled as a \<^typ>\<open>real\<close>: the arithmetic of the scoring
  functions is read as exact arithmetic, without the rounding of binary floating point and
  without \<open>NaN\<close> or the infinities. \<open>Math.round\<close> rounds to the nearest integer, a half
  going up.
\<close>

definition Math_round :: "real \<Rightarrow> real" where
  "Math_round x = of_int \<lfloor>x + 1 / 2\<rfloor>"

section \<open>Weather service (weatherService)\<close>

record WeatherData =
  temperature :: real
  condition :: string
  humidity :: real
  windSpeed :: real
  description :: string
  icon :: string
  uvIndex :: "real option"
  visibility :: "real option"
  pressure :: "real option"
  feelsLike :: "real option"

text \<open>
  \<open>getWeatherSuitabilityScore\<close>: the running \<open>score\<close> starts at 1.0 and is multiplied in
  turn by the temperature, the condition, the wind and the humidity factor; the result is
  \<open>Math.max(0, Math.min(1, score))\<close>.
\<close>

definition getWeatherSuitabilityScore :: "WeatherData \<Rightarrow> real" where
  "getWeatherSuitabilityScore weather =
    (let score0 = (1 :: real);
         score1 =
           (if temperature weather \<ge> 15 \<and> temperature weather \<le> 25 then score0 * 1.0
            else if temperature weather \<ge> 10 \<and> temperature weather \<le> 30 then score0 * 0.8
            else if temperature weather \<ge> 5 \<and> temperature weather \<le> 35 then score0 * 0.6
            else score0 * 0.3);
         score2 =
           (if condition weather = ''clear'' \<or> condition weather = ''sunny''
               \<or> condition weather = ''partly-cloudy'' then score1 * 1.0
            else if condition weather = ''cloudy'' \<or> condition weather = ''overcast''
              then score1 * 0.9
            else if condition weather = ''light-rain'' then score1 * 0.4
            else if condition weather = ''rain'' \<or> condition weather = ''heavy-rain''
              then score1 * 0.1
            else if condition weather = ''snow'' \<or> condition weather = ''fog''
              then score1 * 0.2
            else score1 * 0.7);
         score3 =
           (if windSpeed weather \<le> 10 then score2 * 1.0
            else if windSpeed weather \<le> 20 then score2 * 0.8
            else score2 * 0.5);
         score4 =
           (if humidity weather \<ge> 40 \<and> humidity weather \<le> 70 then score3 * 1.0
            else if humidity weather \<ge> 30 \<and> humidity weather \<le> 80 then score3 * 0.9
            else score3 * 0.7)
     in max 0 (min 1 score4))"

subsection \<open>The four sub-scores as the specification words them\<close>

text \<open>
  The specification describes the score as the product of four sub-scores. These four
  functions follow its words (temperature bands, condition table, wind bands, humidity
  bands); they are compared with the function above.
\<close>

definition temperatureBandScore :: "real \<Rightarrow> real" where
  "temperatureBandScore t =
    (if 15 \<le> t \<and> t \<le> 25 then 1.0
     else if 10 \<le> t \<and> t \<le> 30 then 0.8
     else if 5 \<le> t \<and> t \<le> 35 then 0.6
     else 0.3)"

definition conditionTable :: "(string \<times> real) list" where
  "conditionTable =
    [(''clear'', 1.0), (''sunny'', 1.0), (''partly-cloudy'', 1.0),
     (''cloudy'', 0.9), (''overcast'', 0.9),
     (''light-rain'', 0.4),
     (''rain'', 0.1), (''heavy-rain'', 0.1),
     (''snow'', 0.2), (''fog'', 0.2)]"

definition conditionLookupScore :: "string \<Rightarrow> real" where
  "conditionLookupScore c = (case map_of conditionTable c of Some m \<Rightarrow> m | None \<Rightarrow> 0.7)"

definition windBandScore :: "real \<Rightarrow> real" where
  "windBandScore v = (if v \<le> 10 then 1.0 else if v \<le> 20 then 0.8 else 0.5)"

definition humidityBandScore :: "real \<Rightarrow> real" where
  "humidityBandScore h =
    (if 40 \<le> h \<and> h \<le> 70 then 1.0
     else if 30 \<le> h \<and> h \<le> 80 then 0.9
     else 0.7)"

definition bandProduct :: "WeatherData \<Rightarrow> real" where
  "bandProduct w =
     temperatureBandScore (temperature w) * conditionLookupScore (condition w)
       * windBandScore (windSpeed w) * humidityBandScore (humidity w)"

section \<open>Feedback service (feedbackService)\<close>

text \<open>
  \<open>FeedbackData\<close> is declared by the feedback form component; the record has the fields
  that \<open>submitFeedback\<close> and \<open>updateRecommendationLearning\<close> read from it.
\<close>

record FeedbackData =
  routeId :: string
  rating :: real
  difficulty :: real
  safety :: real
  scenery :: real
  tags :: "string list"
  comment :: string
  wouldRecommend :: "bool option"

text \<open>
  \<open>calculateNewPreference(currentPreference, newRating, overallRating)\<close>: a rating of 0
  returns the current value as it is; otherwise the weighted value is rounded to one decimal
  by \<open>Math.round(newPreference * 10) / 10\<close> and bounded by
  \<open>Math.max(1, Math.min(10, ...))\<close>.
\<close>

definition calculateNewPreference :: "real \<Rightarrow> real \<Rightarrow> real \<Rightarrow> real" where
  "calculateNewPreference currentPreference newRating overallRating =
    (if newRating = 0 then currentPreference
     else
       (let weight = overallRating / 5;
            newPreference = currentPreference * 0.8 + newRating * weight * 0.2
        in max 1 (min 10 (Math_round (newPreference * 10) / 10))))"

text \<open>
  The row of the table \<open>user_preferences\<close>, as far as \<open>updateUserPreferences\<close> reads
  and writes it. A column that is missing (no row, or a null) is \<open>None\<close>.
\<close>

record PreferenceRow =
  user_id :: string
  difficulty_preference :: "real option"
  safety_importance :: "real option"
  scenery_importance :: "real option"

text \<open>\<open>existingPrefs?.column || 5\<close>: a missing row, a missing value and the value 0 give 5.\<close>

definition existingOrDefault ::
    "PreferenceRow option \<Rightarrow> (PreferenceRow \<Rightarrow> real option) \<Rightarrow> real" where
  "existingOrDefault existingPrefs column =
    (case existingPrefs of
       None \<Rightarrow> 5
     | Some row \<Rightarrow> (case column row of None \<Rightarrow> 5 | Some x \<Rightarrow> if x = 0 then 5 else x))"

text \<open>
  \<open>updateUserPreferences\<close>: the row \<open>updateData\<close> that is upserted, computed from the
  row fetched before (the column \<open>updated_at\<close>, the clock's reading, is left out).
\<close>

definition updateUserPreferences ::
    "PreferenceRow option \<Rightarrow> string \<Rightarrow> FeedbackData \<Rightarrow> PreferenceRow" where
  "updateUserPreferences existingPrefs userId feedback =
    \<lparr>user_id = userId,
     difficulty_preference = Some (calculateNewPreference
        (existingOrDefault existingPrefs difficulty_preference) (difficulty feedback) (rating feedback)),
     safety_importance = Some (calculateNewPreference
        (existingOrDefault existingPrefs safety_importance) (safety feedback) (rating feedback)),
     scenery_importance = Some (calculateNewPreference
        (existingOrDefault existingPrefs scenery_importance) (scenery feedback) (rating feedback))\<rparr>"

subsection \<open>The update rule as the specification words it\<close>

definition clamp :: "real \<Rightarrow> real \<Rightarrow> real \<Rightarrow> real" where
  "clamp x lo hi = max lo (min hi x)"

definition emaUpdate :: "real \<Rightarrow> real \<Rightarrow> real \<Rightarrow> real" where
  "emaUpdate old observed overallRating =
     clamp (old * 0.8 + observed * (overallRating / 5) * 0.2) 1 10"

text \<open>Rounding to one decimal, a half going up; and the test for a value with one decimal.\<close>

definition roundToTenth :: "real \<Rightarrow> real" where
  "roundToTenth x = of_int \<lfloor>x * 10 + 1 / 2\<rfloor> / 10"

definition oneDecimal :: "real \<Rightarrow> bool" where
  "oneDecimal x = (x * 10 = of_int \<lfloor>x * 10\<rfloor>)"

section \<open>Recommendation engine (recommendationEngine)\<close>

subsection \<open>Values of type \<open>any\<close>\<close>

text \<open>
  The columns typed \<open>any\<close> (\<open>features\<close>, \<open>weather_suitability\<close>, \<open>time_suitability\<close>,
  \<open>gps_coordinates\<close>, \<open>weather_preferences\<close>) hold JSON values. \<open>truthy\<close> is the test
  that \<open>if (v)\<close>, \<open>!v\<close> and \<open>v ? a : b\<close> make. \<open>member v k\<close> reads \<open>v[k]\<close> (and
  \<open>v?.k\<close>): the own property of an object, where the last of two equal keys counts, and
  \<open>undefined\<close> on anything else. Properties inherited from a prototype, and the indices
  and the length of an array or a string, are not modelled; none of the names read with a
  fixed key (\<open>sunny\<close>, \<open>rainy\<close>, \<open>shade\<close>, \<open>indoor\<close>, \<open>scenic\<close>, \<open>facilities\<close>) is one.
\<close>

datatype jsval =
  JUndefined | JNull | JBool bool | JNum real | JStr string
  | JArr "jsval list" | JObj "(string \<times> jsval) list"

fun truthy :: "jsval \<Rightarrow> bool" where
  "truthy JUndefined = False"
| "truthy JNull = False"
| "truthy (JBool b) = b"
| "truthy (JNum x) = (x \<noteq> 0)"
| "truthy (JStr s) = (s \<noteq> [])"
| "truthy (JArr xs) = True"
| "truthy (JObj kvs) = True"

fun member :: "jsval \<Rightarrow> string \<Rightarrow> jsval" where
  "member (JObj kvs) k = (case map_of (rev kvs) k of Some v \<Rightarrow> v | None \<Rightarrow> JUndefined)"
| "member v k = JUndefined"

text \<open>\<open>x || d\<close> on numbers: the default replaces 0.\<close>

definition orDefault :: "real \<Rightarrow> real \<Rightarrow> real" where
  "orDefault x d = (if x = 0 then d else x)"

subsection \<open>Interfaces\<close>

record DistanceRange =
  range_min :: real
  range_max :: real

text \<open>
  \<open>distance_range\<close> and \<open>terrain_preferences\<close> are tested for presence by the engine
  (\<open>if (distance_range)\<close>, \<open>terrain_preferences?.includes\<close>): a null is \<open>None\<close>.
\<close>

record UserProfile =
  id :: string
  fitness_level :: real
  difficulty_preference :: string
  distance_range :: "DistanceRange option"
  terrain_preferences :: "string list option"
  time_preferences :: "string list"
  weather_preferences :: jsval
  running_goals :: "string list"

record Route =
  id :: string
  name :: string
  description :: string
  distance :: real
  difficulty_level :: real
  terrain_type :: string
  features :: jsval
  avg_rating :: real
  total_ratings :: real
  elevation_gain :: real
  estimated_duration :: real
  safety_rating :: real
  lighting_quality :: string
  weather_suitability :: jsval
  time_suitability :: jsval
  gps_coordinates :: jsval

record UserActivity =
  total_runs :: real
  total_distance :: real
  avg_pace :: real
  favorite_terrain :: string
  favorite_time :: string
  fitness_improvement_score :: real
  consistency_score :: real
  exploration_score :: real

record RunningHistory =
  id :: string
  route_id :: string
  distance :: real
  duration :: real
  avg_pace :: real
  user_rating :: real
  effort_level :: real
  weather_condition :: string
  completed_at :: string

record Reasoning =
  factors :: "string list"
  weather_match :: bool
  time_match :: bool
  difficulty_match :: bool
  preference_match :: bool
  novelty_factor :: bool
  safety_factor :: bool

record Recommendation =
  route :: Route
  score :: real
  confidence_score :: real
  reasoning :: Reasoning
  recommendation_type :: string
  weather_factor :: WeatherData
  time_factor :: string
  difficulty_match_score :: real
  preference_match_score :: real
  novelty_score :: real
  reason :: string

subsection \<open>The engine's fields and the store\<close>

record RecommendationEngine =
  userId :: string
  userProfile :: "UserProfile option"
  userActivity :: "UserActivity option"
  runningHistory :: "RunningHistory list"

text \<open>
  What awaiting a query of the store gives: the promise is rejected (the \<open>await\<close>
  throws), or it resolves to an object with the fields \<open>data\<close> (\<open>None\<close> for null) and
  \<open>error\<close> (set or not). The store answers the three queries of \<open>loadUserData\<close> for a
  user id (the history query is ordered and limited to 30 rows by the store) and the
  query of \<open>getAllRoutes\<close>.
\<close>

datatype 'a response = Rejected | Resolved "'a option" bool

record Supabase =
  user_preferences_single :: "string \<Rightarrow> UserProfile response"
  user_activity_stats_single :: "string \<Rightarrow> UserActivity response"
  running_history_rows :: "string \<Rightarrow> RunningHistory list response"
  routes_rows :: "Route list response"

text \<open>
  \<open>loadUserData\<close>: the three assignments in turn; a rejected query leaves the \<open>try\<close>
  block, the fields assigned so far keep their new values and the others their old ones.
\<close>

definition loadUserData :: "Supabase \<Rightarrow> RecommendationEngine \<Rightarrow> RecommendationEngine" where
  "loadUserData supabase this =
    (case user_preferences_single supabase (userId this) of
       Rejected \<Rightarrow> this
     | Resolved preferences _ \<Rightarrow>
        (let this1 = this\<lparr>userProfile := preferences\<rparr> in
         case user_activity_stats_single supabase (userId this1) of
           Rejected \<Rightarrow> this1
         | Resolved activity _ \<Rightarrow>
            (let this2 = this1\<lparr>userActivity := activity\<rparr> in
             case running_history_rows supabase (userId this2) of
               Rejected \<Rightarrow> this2
             | Resolved history _ \<Rightarrow>
                 this2\<lparr>runningHistory := (case history of None \<Rightarrow> [] | Some h \<Rightarrow> h)\<rparr>)))"

text \<open>\<open>getFallbackRoutes\<close>: the built-in routes; their texts are given in UTF-8.\<close>

definition getFallbackRoutes :: "Route list" where
  "getFallbackRoutes =
    [\<lparr>Route.id = ''route-1'',
       name =
         [CHR 0xE5, CHR 0xA4, CHR 0x96, CHR 0xE6, CHR 0xBB, CHR 0xA9, CHR 0xE6, CHR 0xBB,
         CHR 0xA8, CHR 0xE6, CHR 0xB1, CHR 0x9F, CHR 0xE6, CHR 0xAD, CHR 0xA5, CHR 0xE9,
         CHR 0x81, CHR 0x93],
       Route.description =
         [CHR 0xE6, CHR 0xB2, CHR 0xBF, CHR 0xE7, CHR 0x9D, CHR 0x80, CHR 0xE9, CHR 0xBB,
         CHR 0x84, CHR 0xE6, CHR 0xB5, CHR 0xA6, CHR 0xE6, CHR 0xB1, CHR 0x9F, CHR 0xE7,
         CHR 0x95, CHR 0x94, CHR 0xE7, CHR 0x9A, CHR 0x84, CHR 0xE7, CHR 0xBB, CHR 0x8F,
         CHR 0xE5, CHR 0x85, CHR 0xB8, CHR 0xE8, CHR 0xB7, CHR 0x91, CHR 0xE6, CHR 0xAD,
         CHR 0xA5, CHR 0xE8, CHR 0xB7, CHR 0xAF, CHR 0xE7, CHR 0xBA, CHR 0xBF, CHR 0xEF,
         CHR 0xBC, CHR 0x8C, CHR 0xE5, CHR 0x8F, CHR 0xAF, CHR 0xE4, CHR 0xBB, CHR 0xA5,
         CHR 0xE6, CHR 0xAC, CHR 0xA3, CHR 0xE8, CHR 0xB5, CHR 0x8F, CHR 0xE5, CHR 0x88,
         CHR 0xB0, CHR 0xE5, CHR 0xA4, CHR 0x96, CHR 0xE6, CHR 0xBB, CHR 0xA9, CHR 0xE4,
         CHR 0xB8, CHR 0x87, CHR 0xE5, CHR 0x9B, CHR 0xBD, CHR 0xE5, CHR 0xBB, CHR 0xBA,
         CHR 0xE7, CHR 0xAD, CHR 0x91, CHR 0xE7, CHR 0xBE, CHR 0xA4, CHR 0xE5, CHR 0x92,
         CHR 0x8C, CHR 0xE9, CHR 0x99, CHR 0x86, CHR 0xE5, CHR 0xAE, CHR 0xB6, CHR 0xE5,
         CHR 0x98, CHR 0xB4, CHR 0xE5, CHR 0xA4, CHR 0xA9, CHR 0xE9, CHR 0x99, CHR 0x85,
         CHR 0xE7, CHR 0xBA, CHR 0xBF, CHR 0xE7, CHR 0x9A, CHR 0x84, CHR 0xE7, CHR 0xBE,
         CHR 0x8E, CHR 0xE6, CHR 0x99, CHR 0xAF, CHR 0xE3, CHR 0x80, CHR 0x82],
       Route.distance = 5.2,
       difficulty_level = 3,
       terrain_type = [CHR 0xE5, CHR 0xB9, CHR 0xB3, CHR 0xE8, CHR 0xB7, CHR 0xAF],
       features =
         JArr [JStr [CHR 0xE6, CHR 0xB1, CHR 0x9F, CHR 0xE6, CHR 0x99, CHR 0xAF], JStr [CHR 0xE5,
         CHR 0xA4, CHR 0x9C, CHR 0xE6, CHR 0x99, CHR 0xAF], JStr [CHR 0xE5, CHR 0xB9, CHR 0xB3,
         CHR 0xE5, CHR 0x9D, CHR 0xA6], JStr [CHR 0xE5, CHR 0xAE, CHR 0x89, CHR 0xE5, CHR 0x85,
         CHR 0xA8]],
       avg_rating = 4.6,
       total_ratings = 128,
       elevation_gain = 15,
       estimated_duration = 35,
       safety_rating = 9,
       lighting_quality = ''excellent'',
       weather_suitability = JObj [(''rain'', JNum 0.3), (''sun'', JNum 0.9), (''wind'', JNum 0.7)],
       time_suitability =
         JObj [(''morning'', JNum 0.9), (''afternoon'', JNum 0.8), (''evening'', JNum 0.95),
         (''night'', JNum 0.85)],
       gps_coordinates =
         JObj [(''start'', JArr [JNum 121.4737, JNum 31.2304]), (''end'', JArr [JNum 121.5057,
         JNum 31.2396])]\<rparr>,
     \<lparr>Route.id = ''route-2'',
       name =
         [CHR 0xE4, CHR 0xB8, CHR 0x96, CHR 0xE7, CHR 0xBA, CHR 0xAA, CHR 0xE5, CHR 0x85,
         CHR 0xAC, CHR 0xE5, CHR 0x9B, CHR 0xAD, CHR 0xE7, CHR 0x8E, CHR 0xAF, CHR 0xE6,
         CHR 0xB9, CHR 0x96, CHR 0xE8, CHR 0xB7, CHR 0x91, CHR 0xE9, CHR 0x81, CHR 0x93],
       Route.description =
         [CHR 0xE4, CHR 0xB8, CHR 0x96, CHR 0xE7, CHR 0xBA, CHR 0xAA, CHR 0xE5, CHR 0x85,
         CHR 0xAC, CHR 0xE5, CHR 0x9B, CHR 0xAD, CHR 0xE5, CHR 0x86, CHR 0x85, CHR 0xE7,
         CHR 0x9A, CHR 0x84, CHR 0xE7, CHR 0x8E, CHR 0xAF, CHR 0xE6, CHR 0xB9, CHR 0x96,
         CHR 0xE8, CHR 0xB7, CHR 0x91, CHR 0xE9, CHR 0x81, CHR 0x93, CHR 0xEF, CHR 0xBC,
         CHR 0x8C, CHR 0xE7, CHR 0xBB, CHR 0xBF, CHR 0xE6, CHR 0xA0, CHR 0x91, CHR 0xE6,
         CHR 0x88, CHR 0x90, CHR 0xE8, CHR 0x8D, CHR 0xAB, CHR 0xEF, CHR 0xBC, CHR 0x8C,
         CHR 0xE7, CHR 0xA9, CHR 0xBA, CHR 0xE6, CHR 0xB0, CHR 0x94, CHR 0xE6, CHR 0xB8,
         CHR 0x85, CHR 0xE6, CHR 0x96, CHR 0xB0, CHR 0xEF, CHR 0xBC, CHR 0x8C, CHR 0xE6,
         CHR 0x98, CHR 0xAF, CHR 0xE5, CHR 0xB8, CHR 0x82, CHR 0xE5, CHR 0x8C, CHR 0xBA,
         CHR 0xE5, CHR 0x86, CHR 0x85, CHR 0xE9, CHR 0x9A, CHR 0xBE, CHR 0xE5, CHR 0xBE,
         CHR 0x97, CHR 0xE7, CHR 0x9A, CHR 0x84, CHR 0xE5, CHR 0xA4, CHR 0xA9, CHR 0xE7,
         CHR 0x84, CHR 0xB6, CHR 0xE6, CHR 0xB0, CHR 0xA7, CHR 0xE5, CHR 0x90, CHR 0xA7,
         CHR 0xE3, CHR 0x80, CHR 0x82],
       Route.distance = 3.8,
       difficulty_level = 2,
       terrain_type = [CHR 0xE5, CHR 0xB9, CHR 0xB3, CHR 0xE8, CHR 0xB7, CHR 0xAF],
       features =
         JArr [JStr [CHR 0xE7, CHR 0xBB, CHR 0xBF, CHR 0xE5, CHR 0x8C, CHR 0x96], JStr [CHR 0xE6,
         CHR 0xB9, CHR 0x96, CHR 0xE6, CHR 0x99, CHR 0xAF], JStr [CHR 0xE7, CHR 0xA9, CHR 0xBA,
         CHR 0xE6, CHR 0xB0, CHR 0x94, CHR 0xE5, CHR 0xA5, CHR 0xBD], JStr [CHR 0xE5, CHR 0xAE,
         CHR 0x89, CHR 0xE9, CHR 0x9D, CHR 0x99]],
       avg_rating = 4.4,
       total_ratings = 95,
       elevation_gain = 8,
       estimated_duration = 25,
       safety_rating = 8,
       lighting_quality = ''good'',
       weather_suitability = JObj [(''rain'', JNum 0.6), (''sun'', JNum 0.8), (''wind'', JNum 0.9)],
       time_suitability =
         JObj [(''morning'', JNum 0.95), (''afternoon'', JNum 0.7), (''evening'', JNum 0.8),
         (''night'', JNum 0.4)],
       gps_coordinates =
         JObj [(''start'', JArr [JNum 121.5569, JNum 31.2196]), (''end'', JArr [JNum 121.5569,
         JNum 31.2196])]\<rparr>,
     \<lparr>Route.id = ''route-3'',
       name =
         [CHR 0xE5, CHR 0xBE, CHR 0x90, CHR 0xE5, CHR 0xAE, CHR 0xB6, CHR 0xE6, CHR 0xB1,
         CHR 0x87, CHR 0xE5, CHR 0x85, CHR 0xAC, CHR 0xE5, CHR 0x9B, CHR 0xAD, CHR 0xE6,
         CHR 0x85, CHR 0xA2, CHR 0xE8, CHR 0xB7, CHR 0x91, CHR 0xE5, CHR 0xBE, CHR 0x84],
       Route.description =
         [CHR 0xE5, CHR 0xB8, CHR 0x82, CHR 0xE4, CHR 0xB8, CHR 0xAD, CHR 0xE5, CHR 0xBF,
         CHR 0x83, CHR 0xE7, CHR 0x9A, CHR 0x84, CHR 0xE7, CHR 0xBB, CHR 0xBF, CHR 0xE8,
         CHR 0x89, CHR 0xB2, CHR 0xE6, CHR 0x85, CHR 0xA2, CHR 0xE8, CHR 0xB7, CHR 0x91,
         CHR 0xE5, CHR 0xBE, CHR 0x84, CHR 0xEF, CHR 0xBC, CHR 0x8C, CHR 0xE8, CHR 0xB7,
         CHR 0xAF, CHR 0xE7, CHR 0xBA, CHR 0xBF, CHR 0xE7, CHR 0x9F, CHR 0xAD, CHR 0xE5,
         CHR 0xB0, CHR 0x8F, CHR 0xE7, CHR 0xB2, CHR 0xBE, CHR 0xE6, CHR 0x82, CHR 0x8D,
         CHR 0xEF, CHR 0xBC, CHR 0x8C, CHR 0xE9, CHR 0x80, CHR 0x82, CHR 0xE5, CHR 0x90,
         CHR 0x88, CHR 0xE5, CHR 0x88, CHR 0x9D, CHR 0xE5, CHR 0xAD, CHR 0xA6, CHR 0xE8,
         CHR 0x80, CHR 0x85, CHR 0xE5, CHR 0x92, CHR 0x8C, CHR 0xE6, CHR 0x97, CHR 0xB6,
         CHR 0xE9, CHR 0x97, CHR 0xB4, CHR 0xE7, CHR 0xB4, CHR 0xA7, CHR 0xE5, CHR 0xBC,
         CHR 0xA0, CHR 0xE7, CHR 0x9A, CHR 0x84, CHR 0xE8, CHR 0xB7, CHR 0x91, CHR 0xE8,
         CHR 0x80, CHR 0x85, CHR 0xE3, CHR 0x80, CHR 0x82],
       Route.distance = 2.5,
       difficulty_level = 1,
       terrain_type = [CHR 0xE5, CHR 0xB9, CHR 0xB3, CHR 0xE8, CHR 0xB7, CHR 0xAF],
       features =
         JArr [JStr [CHR 0xE4, CHR 0xBE, CHR 0xBF, CHR 0xE6, CHR 0xB0, CHR 0x91], JStr [CHR 0xE7,
         CHR 0x9F, CHR 0xAD, CHR 0xE8, CHR 0xB7, CHR 0x9D, CHR 0xE7, CHR 0xA6, CHR 0xBB],
         JStr [CHR 0xE5, CHR 0x88, CHR 0x9D, CHR 0xE5, CHR 0xAD, CHR 0xA6, CHR 0xE8, CHR 0x80,
         CHR 0x85, CHR 0xE5, CHR 0x8F, CHR 0x8B, CHR 0xE5, CHR 0xA5, CHR 0xBD], JStr [CHR 0xE4,
         CHR 0xBA, CHR 0xA4, CHR 0xE9, CHR 0x80, CHR 0x9A, CHR 0xE4, CHR 0xBE, CHR 0xBF,
         CHR 0xE5, CHR 0x88, CHR 0xA9]],
       avg_rating = 4.2,
       total_ratings = 67,
       elevation_gain = 5,
       estimated_duration = 18,
       safety_rating = 9,
       lighting_quality = ''excellent'',
       weather_suitability = JObj [(''rain'', JNum 0.7), (''sun'', JNum 0.8), (''wind'', JNum 0.8)],
       time_suitability =
         JObj [(''morning'', JNum 0.8), (''afternoon'', JNum 0.9), (''evening'', JNum 0.85),
         (''night'', JNum 0.7)],
       gps_coordinates =
         JObj [(''start'', JArr [JNum 121.4352, JNum 31.1993]), (''end'', JArr [JNum 121.4352,
         JNum 31.1993])]\<rparr>,
     \<lparr>Route.id = ''route-4'',
       name =
         [CHR 0xE9, CHR 0x9D, CHR 0x99, CHR 0xE5, CHR 0xAE, CHR 0x89, CHR 0xE9, CHR 0x9B,
         CHR 0x95, CHR 0xE5, CHR 0xA1, CHR 0x91, CHR 0xE5, CHR 0x85, CHR 0xAC, CHR 0xE5,
         CHR 0x9B, CHR 0xAD, CHR 0xE8, CHR 0xB7, CHR 0x91, CHR 0xE9, CHR 0x81, CHR 0x93],
       Route.description =
         [CHR 0xE9, CHR 0x9D, CHR 0x99, CHR 0xE5, CHR 0xAE, CHR 0x89, CHR 0xE5, CHR 0x8C,
         CHR 0xBA, CHR 0xE7, CHR 0x9A, CHR 0x84, CHR 0xE8, CHR 0x89, CHR 0xBA, CHR 0xE6,
         CHR 0x9C, CHR 0xAF, CHR 0xE5, CHR 0x85, CHR 0xAC, CHR 0xE5, CHR 0x9B, CHR 0xAD,
         CHR 0xEF, CHR 0xBC, CHR 0x8C, CHR 0xE8, CHR 0xB7, CHR 0x91, CHR 0xE9, CHR 0x81,
         CHR 0x93, CHR 0xE8, CHR 0xAE, CHR 0xBE, CHR 0xE8, CHR 0xAE, CHR 0xA1, CHR 0xE7,
         CHR 0xB2, CHR 0xBE, CHR 0xE7, CHR 0xBE, CHR 0x8E, CHR 0xEF, CHR 0xBC, CHR 0x8C,
         CHR 0xE5, CHR 0x91, CHR 0xA8, CHR 0xE5, CHR 0x9B, CHR 0xB4, CHR 0xE9, CHR 0x9B,
         CHR 0x95, CHR 0xE5, CHR 0xA1, CHR 0x91, CHR 0xE4, CHR 0xBD, CHR 0x9C, CHR 0xE5,
         CHR 0x93, CHR 0x81, CHR 0xE4, CHR 0xB8, CHR 0xB0, CHR 0xE5, CHR 0xAF, CHR 0x8C,
         CHR 0xEF, CHR 0xBC, CHR 0x8C, CHR 0xE6, CHR 0x98, CHR 0xAF, CHR 0xE8, CHR 0x89,
         CHR 0xBA, CHR 0xE6, CHR 0x9C, CHR 0xAF, CHR 0xE4, CHR 0xB8, CHR 0x8E, CHR 0xE8,
         CHR 0xBF, CHR 0x90, CHR 0xE5, CHR 0x8A, CHR 0xA8, CHR 0xE7, CHR 0x9A, CHR 0x84,
         CHR 0xE5, CHR 0xAE, CHR 0x8C, CHR 0xE7, CHR 0xBE, CHR 0x8E, CHR 0xE7, CHR 0xBB,
         CHR 0x93, CHR 0xE5, CHR 0x90, CHR 0x88, CHR 0xE3, CHR 0x80, CHR 0x82],
       Route.distance = 2.8,
       difficulty_level = 2,
       terrain_type = [CHR 0xE5, CHR 0xB9, CHR 0xB3, CHR 0xE8, CHR 0xB7, CHR 0xAF],
       features =
         JArr [JStr [CHR 0xE8, CHR 0x89, CHR 0xBA, CHR 0xE6, CHR 0x9C, CHR 0xAF], JStr [CHR 0xE6,
         CHR 0x96, CHR 0x87, CHR 0xE5, CHR 0x8C, CHR 0x96], JStr [CHR 0xE7, CHR 0xB2, CHR 0xBE,
         CHR 0xE8, CHR 0x87, CHR 0xB4], JStr [CHR 0xE5, CHR 0x9F, CHR 0x8E, CHR 0xE5, CHR 0xB8,
         CHR 0x82, CHR 0xE7, CHR 0xBB, CHR 0xBF, CHR 0xE6, CHR 0xB4, CHR 0xB2]],
       avg_rating = 4.3,
       total_ratings = 82,
       elevation_gain = 6,
       estimated_duration = 20,
       safety_rating = 8,
       lighting_quality = ''good'',
       weather_suitability = JObj [(''rain'', JNum 0.5), (''sun'', JNum 0.9), (''wind'', JNum 0.7)],
       time_suitability =
         JObj [(''morning'', JNum 0.8), (''afternoon'', JNum 0.8), (''evening'', JNum 0.9),
         (''night'', JNum 0.6)],
       gps_coordinates =
         JObj [(''start'', JArr [JNum 121.4458, JNum 31.2288]), (''end'', JArr [JNum 121.4458,
         JNum 31.2288])]\<rparr>,
     \<lparr>Route.id = ''route-5'',
       name =
         [CHR 0xE5, CHR 0xA4, CHR 0x8D, CHR 0xE5, CHR 0x85, CHR 0xB4, CHR 0xE5, CHR 0x85,
         CHR 0xAC, CHR 0xE5, CHR 0x9B, CHR 0xAD, CHR 0xE6, CHR 0x99, CHR 0xA8, CHR 0xE8,
         CHR 0xB7, CHR 0x91, CHR 0xE8, CHR 0xB7, CHR 0xAF, CHR 0xE7, CHR 0xBA, CHR 0xBF],
       Route.description =
         [CHR 0xE5, CHR 0x8E, CHR 0x86, CHR 0xE5, CHR 0x8F, CHR 0xB2, CHR 0xE6, CHR 0x82,
         CHR 0xA0, CHR 0xE4, CHR 0xB9, CHR 0x85, CHR 0xE7, CHR 0x9A, CHR 0x84, CHR 0xE6,
         CHR 0xB3, CHR 0x95, CHR 0xE5, CHR 0xBC, CHR 0x8F, CHR 0xE5, CHR 0x85, CHR 0xAC,
         CHR 0xE5, CHR 0x9B, CHR 0xAD, CHR 0xEF, CHR 0xBC, CHR 0x8C, CHR 0xE5, CHR 0x8F,
         CHR 0xA4, CHR 0xE6, CHR 0xA0, CHR 0x91, CHR 0xE5, CHR 0x8F, CHR 0x82, CHR 0xE5,
         CHR 0xA4, CHR 0xA9, CHR 0xEF, CHR 0xBC, CHR 0x8C, CHR 0xE7, CHR 0x8E, CHR 0xAF,
         CHR 0xE5, CHR 0xA2, CHR 0x83, CHR 0xE4, CHR 0xBC, CHR 0x98, CHR 0xE9, CHR 0x9B,
         CHR 0x85, CHR 0xEF, CHR 0xBC, CHR 0x8C, CHR 0xE6, CHR 0x98, CHR 0xAF, CHR 0xE6,
         CHR 0x99, CHR 0xA8, CHR 0xE8, CHR 0xB7, CHR 0x91, CHR 0xE7, CHR 0x9A, CHR 0x84,
         CHR 0xE7, CHR 0xBB, CHR 0x9D, CHR 0xE4, CHR 0xBD, CHR 0xB3, CHR 0xE9, CHR 0x80,
         CHR 0x89, CHR 0xE6, CHR 0x8B, CHR 0xA9, CHR 0xE3, CHR 0x80, CHR 0x82],
       Route.distance = 1.8,
       difficulty_level = 1,
       terrain_type = [CHR 0xE5, CHR 0xB9, CHR 0xB3, CHR 0xE8, CHR 0xB7, CHR 0xAF],
       features =
         JArr [JStr [CHR 0xE5, CHR 0x8E, CHR 0x86, CHR 0xE5, CHR 0x8F, CHR 0xB2], JStr [CHR 0xE6,
         CHR 0xB3, CHR 0x95, CHR 0xE5, CHR 0xBC, CHR 0x8F], JStr [CHR 0xE5, CHR 0x8F, CHR 0xA4,
         CHR 0xE6, CHR 0xA0, CHR 0x91], JStr [CHR 0xE4, CHR 0xBC, CHR 0x98, CHR 0xE9, CHR 0x9B,
         CHR 0x85]],
       avg_rating = 4.1,
       total_ratings = 54,
       elevation_gain = 3,
       estimated_duration = 15,
       safety_rating = 7,
       lighting_quality = ''fair'',
       weather_suitability = JObj [(''rain'', JNum 0.4), (''sun'', JNum 0.8), (''wind'', JNum 0.9)],
       time_suitability =
         JObj [(''morning'', JNum 0.95), (''afternoon'', JNum 0.6), (''evening'', JNum 0.7),
         (''night'', JNum 0.3)],
       gps_coordinates =
         JObj [(''start'', JArr [JNum 121.4737, JNum 31.2304]), (''end'', JArr [JNum 121.4737,
         JNum 31.2304])]\<rparr>,
     \<lparr>Route.id = ''route-6'',
       name =
         [CHR 0xE9, CHR 0x99, CHR 0x86, CHR 0xE5, CHR 0xAE, CHR 0xB6, CHR 0xE5, CHR 0x98,
         CHR 0xB4, CHR 0xE6, CHR 0xBB, CHR 0xA8, CHR 0xE6, CHR 0xB1, CHR 0x9F, CHR 0xE5,
         CHR 0xA4, CHR 0xA7, CHR 0xE9, CHR 0x81, CHR 0x93],
       Route.description =
         [CHR 0xE7, CHR 0x8E, CHR 0xB0, CHR 0xE4, CHR 0xBB, CHR 0xA3, CHR 0xE5, CHR 0x8C,
         CHR 0x96, CHR 0xE9, CHR 0x87, CHR 0x91, CHR 0xE8, CHR 0x9E, CHR 0x8D, CHR 0xE5,
         CHR 0x8C, CHR 0xBA, CHR 0xE7, CHR 0x9A, CHR 0x84, CHR 0xE6, CHR 0xBB, CHR 0xA8,
         CHR 0xE6, CHR 0xB1, CHR 0x9F, CHR 0xE8, CHR 0xB7, CHR 0x91, CHR 0xE9, CHR 0x81,
         CHR 0x93, CHR 0xEF, CHR 0xBC, CHR 0x8C, CHR 0xE9, CHR 0xAB, CHR 0x98, CHR 0xE6,
         CHR 0xA5, CHR 0xBC, CHR 0xE6, CHR 0x9E, CHR 0x97, CHR 0xE7, CHR 0xAB, CHR 0x8B,
         CHR 0xEF, CHR 0xBC, CHR 0x8C, CHR 0xE6, CHR 0xB1, CHR 0x9F, CHR 0xE6, CHR 0x99,
         CHR 0xAF, CHR 0xE5, CHR 0xA3, CHR 0xAE, CHR 0xE8, CHR 0xA7, CHR 0x82, CHR 0xEF,
         CHR 0xBC, CHR 0x8C, CHR 0xE4, CHR 0xBD, CHR 0x93, CHR 0xE9, CHR 0xAA, CHR 0x8C,
         CHR 0xE9, CHR 0x83, CHR 0xBD, CHR 0xE5, CHR 0xB8, CHR 0x82, CHR 0xE8, CHR 0xB7,
         CHR 0x91, CHR 0xE6, CHR 0xAD, CHR 0xA5, CHR 0xE7, CHR 0x9A, CHR 0x84, CHR 0xE9,
         CHR 0xAD, CHR 0x85, CHR 0xE5, CHR 0x8A, CHR 0x9B, CHR 0xE3, CHR 0x80, CHR 0x82],
       Route.distance = 4.5,
       difficulty_level = 3,
       terrain_type = [CHR 0xE5, CHR 0xB9, CHR 0xB3, CHR 0xE8, CHR 0xB7, CHR 0xAF],
       features =
         JArr [JStr [CHR 0xE7, CHR 0x8E, CHR 0xB0, CHR 0xE4, CHR 0xBB, CHR 0xA3], JStr [CHR 0xE9,
         CHR 0x87, CHR 0x91, CHR 0xE8, CHR 0x9E, CHR 0x8D, CHR 0xE5, CHR 0x8C, CHR 0xBA],
         JStr [CHR 0xE9, CHR 0xAB, CHR 0x98, CHR 0xE6, CHR 0xA5, CHR 0xBC], JStr [CHR 0xE9,
         CHR 0x83, CHR 0xBD, CHR 0xE5, CHR 0xB8, CHR 0x82]],
       avg_rating = 4.5,
       total_ratings = 156,
       elevation_gain = 12,
       estimated_duration = 30,
       safety_rating = 9,
       lighting_quality = ''excellent'',
       weather_suitability = JObj [(''rain'', JNum 0.3), (''sun'', JNum 0.9), (''wind'', JNum 0.6)],
       time_suitability =
         JObj [(''morning'', JNum 0.8), (''afternoon'', JNum 0.8), (''evening'', JNum 0.95),
         (''night'', JNum 0.9)],
       gps_coordinates =
         JObj [(''start'', JArr [JNum 121.5057, JNum 31.2396]), (''end'', JArr [JNum 121.5057,
         JNum 31.2396])]\<rparr>,
     \<lparr>Route.id = ''route-7'',
       name =
         [CHR 0xE4, CHR 0xB8, CHR 0xAD, CHR 0xE5, CHR 0xB1, CHR 0xB1, CHR 0xE5, CHR 0x85,
         CHR 0xAC, CHR 0xE5, CHR 0x9B, CHR 0xAD, CHR 0xE7, CHR 0x8E, CHR 0xAF, CHR 0xE5,
         CHR 0xBD, CHR 0xA2, CHR 0xE8, CHR 0xB7, CHR 0x91, CHR 0xE9, CHR 0x81, CHR 0x93],
       Route.description =
         [CHR 0xE4, CHR 0xBC, CHR 0xA0, CHR 0xE7, CHR 0xBB, CHR 0x9F, CHR 0xE7, CHR 0x9A,
         CHR 0x84, CHR 0xE5, CHR 0xB8, CHR 0x82, CHR 0xE6, CHR 0xB0, CHR 0x91, CHR 0xE5,
         CHR 0x85, CHR 0xAC, CHR 0xE5, CHR 0x9B, CHR 0xAD, CHR 0xEF, CHR 0xBC, CHR 0x8C,
         CHR 0xE8, CHR 0xB7, CHR 0x91, CHR 0xE9, CHR 0x81, CHR 0x93, CHR 0xE5, CHR 0xAE,
         CHR 0xBD, CHR 0xE6, CHR 0x95, CHR 0x9E, CHR 0xEF, CHR 0xBC, CHR 0x8C, CHR 0xE8,
         CHR 0xAE, CHR 0xBE, CHR 0xE6, CHR 0x96, CHR 0xBD, CHR 0xE5, CHR 0xAE, CHR 0x8C,
         CHR 0xE5, CHR 0x96, CHR 0x84, CHR 0xEF, CHR 0xBC, CHR 0x8C, CHR 0xE9, CHR 0x80,
         CHR 0x82, CHR 0xE5, CHR 0x90, CHR 0x88, CHR 0xE5, CHR 0x90, CHR 0x84, CHR 0xE4,
         CHR 0xB8, CHR 0xAA, CHR 0xE5, CHR 0xB9, CHR 0xB4, CHR 0xE9, CHR 0xBE, CHR 0x84,
         CHR 0xE6, CHR 0xAE, CHR 0xB5, CHR 0xE7, CHR 0x9A, CHR 0x84, CHR 0xE8, CHR 0xB7,
         CHR 0x91, CHR 0xE8, CHR 0x80, CHR 0x85, CHR 0xE3, CHR 0x80, CHR 0x82],
       Route.distance = 3.2,
       difficulty_level = 2,
       terrain_type = [CHR 0xE5, CHR 0xB9, CHR 0xB3, CHR 0xE8, CHR 0xB7, CHR 0xAF],
       features =
         JArr [JStr [CHR 0xE4, CHR 0xBC, CHR 0xA0, CHR 0xE7, CHR 0xBB, CHR 0x9F], JStr [CHR 0xE5,
         CHR 0xAE, CHR 0xBD, CHR 0xE6, CHR 0x95, CHR 0x9E], JStr [CHR 0xE8, CHR 0xAE, CHR 0xBE,
         CHR 0xE6, CHR 0x96, CHR 0xBD, CHR 0xE5, CHR 0xAE, CHR 0x8C, CHR 0xE5, CHR 0x96,
         CHR 0x84], JStr [CHR 0xE5, CHR 0x85, CHR 0xA8, CHR 0xE5, CHR 0xB9, CHR 0xB4, CHR 0xE9,
         CHR 0xBE, CHR 0x84]],
       avg_rating = 4.0,
       total_ratings = 73,
       elevation_gain = 7,
       estimated_duration = 22,
       safety_rating = 8,
       lighting_quality = ''good'',
       weather_suitability = JObj [(''rain'', JNum 0.6), (''sun'', JNum 0.8), (''wind'', JNum 0.8)],
       time_suitability =
         JObj [(''morning'', JNum 0.9), (''afternoon'', JNum 0.7), (''evening'', JNum 0.8),
         (''night'', JNum 0.5)],
       gps_coordinates =
         JObj [(''start'', JArr [JNum 121.422, JNum 31.2196]), (''end'', JArr [JNum 121.422,
         JNum 31.2196])]\<rparr>,
     \<lparr>Route.id = ''route-8'',
       name =
         [CHR 0xE9, CHR 0xBB, CHR 0x84, CHR 0xE6, CHR 0xB5, CHR 0xA6, CHR 0xE6, CHR 0xB1,
         CHR 0x9F, CHR 0xE4, CHR 0xB8, CHR 0xA4, CHR 0xE5, CHR 0xB2, CHR 0xB8, CHR 0xE8,
         CHR 0xB4, CHR 0xAF, CHR 0xE9, CHR 0x80, CHR 0x9A, CHR 0xE9, CHR 0x81, CHR 0x93],
       Route.description =
         [CHR 0xE6, CHR 0xA8, CHR 0xAA, CHR 0xE8, CHR 0xB7, CHR 0xA8, CHR 0xE6, CHR 0xB5,
         CHR 0xA6, CHR 0xE4, CHR 0xB8, CHR 0x9C, CHR 0xE6, CHR 0xB5, CHR 0xA6, CHR 0xE8,
         CHR 0xA5, CHR 0xBF, CHR 0xE7, CHR 0x9A, CHR 0x84, CHR 0xE9, CHR 0x95, CHR 0xBF,
         CHR 0xE8, CHR 0xB7, CHR 0x9D, CHR 0xE7, CHR 0xA6, CHR 0xBB, CHR 0xE8, CHR 0xB7,
         CHR 0x91, CHR 0xE9, CHR 0x81, CHR 0x93, CHR 0xEF, CHR 0xBC, CHR 0x8C, CHR 0xE6,
         CHR 0x8C, CHR 0x91, CHR 0xE6, CHR 0x88, CHR 0x98, CHR 0xE6, CHR 0x80, CHR 0xA7,
         CHR 0xE5, CHR 0xBC, CHR 0xBA, CHR 0xEF, CHR 0xBC, CHR 0x8C, CHR 0xE9, CHR 0xA3,
         CHR 0x8E, CHR 0xE6, CHR 0x99, CHR 0xAF, CHR 0xE5, CHR 0x8F, CHR 0x98, CHR 0xE5,
         CHR 0x8C, CHR 0x96, CHR 0xE4, CHR 0xB8, CHR 0xB0, CHR 0xE5, CHR 0xAF, CHR 0x8C,
         CHR 0xEF, CHR 0xBC, CHR 0x8C, CHR 0xE9, CHR 0x80, CHR 0x82, CHR 0xE5, CHR 0x90,
         CHR 0x88, CHR 0xE6, CHR 0x9C, CHR 0x89, CHR 0xE7, CHR 0xBB, CHR 0x8F, CHR 0xE9,
         CHR 0xAA, CHR 0x8C, CHR 0xE7, CHR 0x9A, CHR 0x84, CHR 0xE8, CHR 0xB7, CHR 0x91,
         CHR 0xE8, CHR 0x80, CHR 0x85, CHR 0xE3, CHR 0x80, CHR 0x82],
       Route.distance = 8.5,
       difficulty_level = 5,
       terrain_type = [CHR 0xE5, CHR 0xB9, CHR 0xB3, CHR 0xE8, CHR 0xB7, CHR 0xAF],
       features =
         JArr [JStr [CHR 0xE9, CHR 0x95, CHR 0xBF, CHR 0xE8, CHR 0xB7, CHR 0x9D, CHR 0xE7,
         CHR 0xA6, CHR 0xBB], JStr [CHR 0xE6, CHR 0x8C, CHR 0x91, CHR 0xE6, CHR 0x88, CHR 0x98],
         JStr [CHR 0xE8, CHR 0xB7, CHR 0xA8, CHR 0xE6, CHR 0xB1, CHR 0x9F], JStr [CHR 0xE9,
         CHR 0xA3, CHR 0x8E, CHR 0xE6, CHR 0x99, CHR 0xAF, CHR 0xE4, CHR 0xB8, CHR 0xB0,
         CHR 0xE5, CHR 0xAF, CHR 0x8C]],
       avg_rating = 4.7,
       total_ratings = 89,
       elevation_gain = 25,
       estimated_duration = 55,
       safety_rating = 8,
       lighting_quality = ''good'',
       weather_suitability = JObj [(''rain'', JNum 0.2), (''sun'', JNum 0.9), (''wind'', JNum 0.5)],
       time_suitability =
         JObj [(''morning'', JNum 0.9), (''afternoon'', JNum 0.7), (''evening'', JNum 0.8),
         (''night'', JNum 0.6)],
       gps_coordinates =
         JObj [(''start'', JArr [JNum 121.4737, JNum 31.2304]), (''end'', JArr [JNum 121.5057,
         JNum 31.2396])]\<rparr>]"

text \<open>
  \<open>getAllRoutes\<close>: a rejected query and a set \<open>error\<close> end in the \<open>catch\<close> block, which
  returns the built-in routes; so do null data and an empty list.
\<close>

definition getAllRoutes :: "Supabase \<Rightarrow> Route list" where
  "getAllRoutes supabase =
    (case routes_rows supabase of
       Rejected \<Rightarrow> getFallbackRoutes
     | Resolved data error \<Rightarrow>
        (if error then getFallbackRoutes
         else (case data of
                 Some rows \<Rightarrow> if length rows > 0 then rows else getFallbackRoutes
               | None \<Rightarrow> getFallbackRoutes)))"

subsection \<open>The calculators\<close>

definition difficultyMap :: "(string \<times> real list) list" where
  "difficultyMap =
    [(''easy'', [1, 2, 3]), (''moderate'', [4, 5, 6]), (''hard'', [7, 8, 9, 10])]"

text \<open>
  \<open>calculateUserRouteMatch\<close>. The two divisions are guarded by \<open>Math.max(0, ...)\<close>: where
  the divisor is 0 the quotient of the source is \<open>-Infinity\<close> and the summand 0, which is
  also what the quotient 0 of HOL gives.
\<close>

definition calculateUserRouteMatch :: "RecommendationEngine \<Rightarrow> Route \<Rightarrow> real" where
  "calculateUserRouteMatch this r =
    (case userProfile this of
       None \<Rightarrow> 0.5
     | Some profile \<Rightarrow>
        (let score0 = (0 :: real);
             factors0 = (0 :: nat);
             (score1, factors1) =
               (case distance_range profile of
                  None \<Rightarrow> (score0, factors0)
                | Some distanceRange \<Rightarrow>
                   (if Route.distance r \<ge> range_min distanceRange
                        \<and> Route.distance r \<le> range_max distanceRange
                      then score0 + 0.25
                    else if Route.distance r < range_min distanceRange
                      then score0 + max 0 (0.25 * (Route.distance r / range_min distanceRange))
                    else score0 + max 0 (0.25 * (range_max distanceRange / Route.distance r)),
                    factors0 + 1));
             score2 =
               (if (case terrain_preferences profile of
                      None \<Rightarrow> False
                    | Some terrains \<Rightarrow> terrain_type r \<in> set terrains)
                then score1 + 0.2 else score1);
             factors2 = factors1 + 1;
             preferredLevels =
               (case map_of difficultyMap (UserProfile.difficulty_preference profile) of
                  Some levels \<Rightarrow> levels
                | None \<Rightarrow> [4, 5, 6]);
             score3 =
               (if difficulty_level r \<in> set preferredLevels then score2 + 0.2 else score2);
             factors3 = factors2 + 1;
             levelDiff = \<bar>fitness_level profile - difficulty_level r\<bar>;
             score4 =
               (if levelDiff \<le> 1 then score3 + 0.15
                else if levelDiff \<le> 2 then score3 + 0.1
                else if levelDiff \<le> 3 then score3 + 0.05
                else score3);
             factors4 = factors3 + 1
         in if factors4 > 0 then score4 / real factors4 else 0.5))"

definition calculateHistoryMatch :: "RecommendationEngine \<Rightarrow> Route \<Rightarrow> real" where
  "calculateHistoryMatch this r =
    (if length (runningHistory this) = 0 then 0.5
     else
       (let avgDistance =
              foldl (\<lambda>sum run. sum + RunningHistory.distance run) 0 (runningHistory this)
                / real (length (runningHistory this));
            avgEffort =
              foldl (\<lambda>sum run. sum + orDefault (effort_level run) 5) 0 (runningHistory this)
                / real (length (runningHistory this));
            avgRating =
              foldl (\<lambda>sum run. sum + orDefault (user_rating run) 3) 0 (runningHistory this)
                / real (length (runningHistory this));
            score0 = (0 :: real);
            distanceDiff = \<bar>Route.distance r - avgDistance\<bar>;
            score1 =
              (if distanceDiff \<le> 1 then score0 + 0.3
               else if distanceDiff \<le> 2 then score0 + 0.2
               else if distanceDiff \<le> 3 then score0 + 0.1
               else score0);
            expectedDifficulty = Math_round avgEffort;
            difficultyDiff = \<bar>difficulty_level r - expectedDifficulty\<bar>;
            score2 =
              (if difficultyDiff \<le> 1 then score1 + 0.3
               else if difficultyDiff \<le> 2 then score1 + 0.2
               else score1);
            score3 = (if avgRating \<ge> 4 then score2 + 0.2 else score2)
        in min 1 score3))"

text \<open>
  \<open>calculateNoveltyScore\<close>: the filter for similar runs returns \<open>false\<close> for every run.
\<close>

definition calculateNoveltyScore :: "RecommendationEngine \<Rightarrow> Route \<Rightarrow> real" where
  "calculateNoveltyScore this r =
    (let hasRun = list_ex (\<lambda>run. route_id run = Route.id r) (runningHistory this) in
     if hasRun then 0.2
     else
       (let similarRuns = filter (\<lambda>run. False) (runningHistory this) in
        if length similarRuns = 0 then 1.0
        else if length similarRuns \<le> 2 then 0.8
        else 0.6))"

definition calculateWeatherMatch :: "Route \<Rightarrow> WeatherData \<Rightarrow> real" where
  "calculateWeatherMatch r weather =
    (if \<not> truthy (weather_suitability r) then 0.5
     else
       (let weatherSuitability = getWeatherSuitabilityScore weather;
            routeWeatherScore0 =
              (if condition weather = ''clear'' \<or> condition weather = ''sunny''
                 then (if truthy (member (weather_suitability r) ''sunny'') then 1.0 else 0.3)
               else if condition weather = ''rain'' \<or> condition weather = ''heavy-rain''
                 then (if truthy (member (weather_suitability r) ''rainy'') then 0.8 else 0.1)
               else if condition weather = ''cloudy'' \<or> condition weather = ''partly-cloudy''
                 then 0.9
               else 0.7);
            routeWeatherScore1 =
              (if temperature weather > 30 \<and> truthy (member (features r) ''shade'')
               then routeWeatherScore0 + 0.2 else routeWeatherScore0);
            routeWeatherScore2 =
              (if temperature weather < 10 \<and> truthy (member (features r) ''indoor'')
               then routeWeatherScore1 + 0.3 else routeWeatherScore1)
        in min 1 (routeWeatherScore2 * weatherSuitability)))"

definition calculateTimeMatch :: "Route \<Rightarrow> string \<Rightarrow> real" where
  "calculateTimeMatch r timeOfDay =
    (if \<not> truthy (time_suitability r) then 0.5
     else
       (let isTimeMatch = member (time_suitability r) timeOfDay in
        if truthy isTimeMatch then 1.0
        else if timeOfDay = ''night'' then
          (if lighting_quality r = ''excellent'' then 0.8
           else if lighting_quality r = ''good'' then 0.6
           else 0.2)
        else 0.5))"

subsection \<open>Generating the recommendations\<close>

text \<open>The weighted sum that \<open>generateRecommendations\<close> computes for each route.\<close>

definition confidenceScore ::
    "real \<Rightarrow> real \<Rightarrow> real \<Rightarrow> real \<Rightarrow> real \<Rightarrow> real \<Rightarrow> real \<Rightarrow> real" where
  "confidenceScore userMatch historyMatch weatherMatch timeMatch safetyScore popularityScore
      noveltyScore =
     userMatch * 0.25 + historyMatch * 0.2 + weatherMatch * 0.2 + timeMatch * 0.15
       + safetyScore * 0.1 + popularityScore * 0.05 + noveltyScore * 0.05"

text \<open>The reasons pushed to \<open>reasoning.factors\<close>, and the separator of \<open>join\<close>, in UTF-8.\<close>

definition factorWeather :: string where
  "factorWeather =
     [CHR 0xE5, CHR 0xA4, CHR 0xA9, CHR 0xE6, CHR 0xB0, CHR 0x94, CHR 0xE6, CHR 0x9D, CHR 0xA1,
     CHR 0xE4, CHR 0xBB, CHR 0xB6, CHR 0xE9, CHR 0x80, CHR 0x82, CHR 0xE5, CHR 0xAE, CHR 0x9C]"

definition factorTime :: string where
  "factorTime =
     [CHR 0xE6, CHR 0x97, CHR 0xB6, CHR 0xE9, CHR 0x97, CHR 0xB4, CHR 0xE5, CHR 0xAE, CHR 0x89,
     CHR 0xE6, CHR 0x8E, CHR 0x92, CHR 0xE5, CHR 0x90, CHR 0x88, CHR 0xE9, CHR 0x80, CHR 0x82]"

definition factorDifficulty :: string where
  "factorDifficulty =
     [CHR 0xE9, CHR 0x9A, CHR 0xBE, CHR 0xE5, CHR 0xBA, CHR 0xA6, CHR 0xE5, CHR 0x8C, CHR 0xB9,
     CHR 0xE9, CHR 0x85, CHR 0x8D]"

definition factorPreference :: string where
  "factorPreference =
     [CHR 0xE7, CHR 0xAC, CHR 0xA6, CHR 0xE5, CHR 0x90, CHR 0x88, CHR 0xE5, CHR 0x81, CHR 0x8F,
     CHR 0xE5, CHR 0xA5, CHR 0xBD]"

definition factorNovelty :: string where
  "factorNovelty =
     [CHR 0xE6, CHR 0x96, CHR 0xB0, CHR 0xE8, CHR 0xB7, CHR 0xAF, CHR 0xE7, CHR 0xBA, CHR 0xBF,
     CHR 0xE6, CHR 0x8E, CHR 0xA2, CHR 0xE7, CHR 0xB4, CHR 0xA2]"

definition factorSafety :: string where
  "factorSafety =
     [CHR 0xE5, CHR 0xAE, CHR 0x89, CHR 0xE5, CHR 0x85, CHR 0xA8, CHR 0xE6, CHR 0x80, CHR 0xA7,
     CHR 0xE9, CHR 0xAB, CHR 0x98]"

definition factorPopular :: string where
  "factorPopular =
     [CHR 0xE7, CHR 0x94, CHR 0xA8, CHR 0xE6, CHR 0x88, CHR 0xB7, CHR 0xE8, CHR 0xAF, CHR 0x84,
     CHR 0xE4, CHR 0xBB, CHR 0xB7, CHR 0xE9, CHR 0xAB, CHR 0x98]"

definition factorScenic :: string where
  "factorScenic =
     [CHR 0xE9, CHR 0xA3, CHR 0x8E, CHR 0xE6, CHR 0x99, CHR 0xAF, CHR 0xE4, CHR 0xBC, CHR 0x98,
     CHR 0xE7, CHR 0xBE, CHR 0x8E]"

definition factorFacilities :: string where
  "factorFacilities =
     [CHR 0xE8, CHR 0xAE, CHR 0xBE, CHR 0xE6, CHR 0x96, CHR 0xBD, CHR 0xE5, CHR 0xAE, CHR 0x8C,
     CHR 0xE5, CHR 0x96, CHR 0x84]"

definition factorSeparator :: string where
  "factorSeparator = [CHR 0xEF, CHR 0xBC, CHR 0x8C]"

fun Array_join :: "string list \<Rightarrow> string \<Rightarrow> string" where
  "Array_join [] sep = []"
| "Array_join [x] sep = x"
| "Array_join (x # y # ys) sep = x @ sep @ Array_join (y # ys) sep"

text \<open>The body of the loop over the routes: the recommendation pushed for one route.\<close>

definition recommendationFor ::
    "RecommendationEngine \<Rightarrow> WeatherData \<Rightarrow> string \<Rightarrow> Route \<Rightarrow> Recommendation" where
  "recommendationFor this weather timeOfDay r =
    (let userMatch = calculateUserRouteMatch this r;
         historyMatch = calculateHistoryMatch this r;
         noveltyScore = calculateNoveltyScore this r;
         weatherMatch = calculateWeatherMatch r weather;
         timeMatch = calculateTimeMatch r timeOfDay;
         safetyScore = safety_rating r / 5;
         popularityScore = min 1 (avg_rating r / 5);
         confidence =
           confidenceScore userMatch historyMatch weatherMatch timeMatch safetyScore
             popularityScore noveltyScore;
         reasoning0 =
           \<lparr>factors = [],
            weather_match = weatherMatch > 0.7,
            time_match = timeMatch > 0.7,
            difficulty_match = userMatch > 0.6,
            preference_match = userMatch > 0.5,
            novelty_factor = noveltyScore > 0.8,
            safety_factor = safetyScore > 0.8\<rparr>;
         pushed =
           (if weather_match reasoning0 then [factorWeather] else [])
           @ (if time_match reasoning0 then [factorTime] else [])
           @ (if difficulty_match reasoning0 then [factorDifficulty] else [])
           @ (if preference_match reasoning0 then [factorPreference] else [])
           @ (if novelty_factor reasoning0 then [factorNovelty] else [])
           @ (if safety_factor reasoning0 then [factorSafety] else [])
           @ (if popularityScore > 0.8 then [factorPopular] else [])
           @ (if truthy (member (features r) ''scenic'') then [factorScenic] else [])
           @ (if truthy (member (features r) ''facilities'') then [factorFacilities] else []);
         reasoning1 = reasoning0\<lparr>factors := pushed\<rparr>;
         recommendationType =
           (if weather_match reasoning1 \<and> time_match reasoning1 \<and> difficulty_match reasoning1
              then ''perfect_match''
            else if popularityScore > 0.9 then ''popular''
            else if difficulty_level r \<ge> 7 then ''challenge''
            else if novelty_factor reasoning1 then ''exploration''
            else if safety_factor reasoning1 \<and> timeOfDay = ''night'' then ''safe_night''
            else ''general'')
     in \<lparr>route = r,
         score = confidence,
         confidence_score = confidence,
         reasoning = reasoning1,
         recommendation_type = recommendationType,
         weather_factor = weather,
         time_factor = timeOfDay,
         difficulty_match_score = userMatch,
         preference_match_score = userMatch,
         novelty_score = noveltyScore,
         reason = Array_join (factors reasoning1) factorSeparator\<rparr>)"

text \<open>
  \<open>Array.prototype.sort\<close> with a comparison function and \<open>Array.prototype.slice\<close> are
  built into the language. The language standard (since its 2019 edition) requires the
  sort to be stable; it is modelled by a stable insertion sort: an element goes before the
  first element that the comparison does not put before it. \<open>slice(0, end)\<close> counts a
  negative \<open>end\<close> from the end of the array; \<open>end\<close> is taken to be an integer.
\<close>

fun insertSorted :: "('a \<Rightarrow> 'a \<Rightarrow> real) \<Rightarrow> 'a \<Rightarrow> 'a list \<Rightarrow> 'a list" where
  "insertSorted compareFn x [] = [x]"
| "insertSorted compareFn x (y # ys) =
     (if compareFn x y \<le> 0 then x # y # ys else y # insertSorted compareFn x ys)"

definition Array_sort :: "'a list \<Rightarrow> ('a \<Rightarrow> 'a \<Rightarrow> real) \<Rightarrow> 'a list" where
  "Array_sort xs compareFn = foldr (insertSorted compareFn) xs []"

definition Array_slice0 :: "'a list \<Rightarrow> int \<Rightarrow> 'a list" where
  "Array_slice0 xs endIndex =
    (let len = int (length xs);
         final = (if endIndex < 0 then max (len + endIndex) 0 else min endIndex len)
     in take (nat final) xs)"

text \<open>
  \<open>generateRecommendations(weather, timeOfDay, limit)\<close>: the engine after loading the user
  data, and the list returned. The default of \<open>limit\<close> is 6.
\<close>

definition generateRecommendations ::
    "Supabase \<Rightarrow> RecommendationEngine \<Rightarrow> WeatherData \<Rightarrow> string \<Rightarrow> int
      \<Rightarrow> RecommendationEngine \<times> Recommendation list" where
  "generateRecommendations supabase this weather timeOfDay limit =
    (let this' = loadUserData supabase this;
         routes = getAllRoutes supabase;
         recommendations = map (recommendationFor this' weather timeOfDay) routes
     in (this',
         Array_slice0
           (Array_sort recommendations (\<lambda>a b. confidence_score b - confidence_score a))
           limit))"

definition defaultLimit :: int where
  "defaultLimit = 6"

subsection \<open>The aggregation as the specification words it\<close>

text \<open>
  The fixed weights, in the order preference match, history match, weather match, time
  match, safety rating, popularity, novelty; and the dot product of two lists.
\<close>

definition aggregationWeights :: "real list" where
  "aggregationWeights = [0.25, 0.20, 0.20, 0.15, 0.10, 0.05, 0.05]"

definition dotProduct :: "real list \<Rightarrow> real list \<Rightarrow> real" where
  "dotProduct ws xs = sum_list (map2 (*) ws xs)"

text \<open>The sub-scores of a route, in the order of the weights.\<close>

definition subScores ::
    "RecommendationEngine \<Rightarrow> WeatherData \<Rightarrow> string \<Rightarrow> Route \<Rightarrow> real list" where
  "subScores this weather timeOfDay r =
    [calculateUserRouteMatch this r, calculateHistoryMatch this r,
     calculateWeatherMatch r weather, calculateTimeMatch r timeOfDay,
     safety_rating r / 5, min 1 (avg_rating r / 5), calculateNoveltyScore this r]"

text \<open>
  The recommendations in the order of the routes, as the loop leaves them before they are
  sorted and cut to the limit.
\<close>

definition candidates ::
    "Supabase \<Rightarrow> RecommendationEngine \<Rightarrow> WeatherData \<Rightarrow> string \<Rightarrow> Recommendation list" where
  "candidates supabase this weather timeOfDay =
     map (recommendationFor (loadUserData supabase this) weather timeOfDay) (getAllRoutes supabase)"

text \<open>\<open>createRecommendationEngine(userId)\<close>: a new engine, nothing loaded.\<close>

definition createRecommendationEngine :: "string \<Rightarrow> RecommendationEngine" where
  "createRecommendationEngine uid =
     \<lparr>userId = uid, userProfile = None, userActivity = None, runningHistory = []\<rparr>"

subsection \<open>The night fallback as the specification words it\<close>

text \<open>The three tiers of the lighting quality.\<close>

definition lightingFallback :: "string \<Rightarrow> real" where
  "lightingFallback quality =
     (if quality = ''excellent'' then 0.8 else if quality = ''good'' then 0.6 else 0.2)"

section \<open>Example data\<close>

text \<open>
  A store that cannot be reached (every query is rejected), a store with three routes and
  no data of the user, a weather reading, and an engine that holds data loaded earlier.
\<close>

definition unreachableStore :: Supabase where
  "unreachableStore =
     \<lparr>user_preferences_single = (\<lambda>uid. Rejected),
      user_activity_stats_single = (\<lambda>uid. Rejected),
      running_history_rows = (\<lambda>uid. Rejected),
      routes_rows = Rejected\<rparr>"

definition sampleWeather :: WeatherData where
  "sampleWeather =
     \<lparr>temperature = 20, condition = ''clear'', humidity = 55, windSpeed = 5,
      description = [], icon = [], uvIndex = None, visibility = None, pressure = None,
      feelsLike = None\<rparr>"

definition parkLoop :: Route where
  "parkLoop =
     \<lparr>Route.id = ''park-loop'', name = ''Park loop'', Route.description = [],
      Route.distance = 5, difficulty_level = 3, terrain_type = ''flat'',
      features = JObj [(''scenic'', JBool True)], avg_rating = 4, total_ratings = 10,
      elevation_gain = 0, estimated_duration = 30, safety_rating = 4,
      lighting_quality = ''good'', weather_suitability = JObj [(''sunny'', JBool True)],
      time_suitability = JObj [(''morning'', JBool True)], gps_coordinates = JNull\<rparr>"

definition parkLoopReverse :: Route where
  "parkLoopReverse = parkLoop\<lparr>Route.id := ''park-loop-reverse'', name := ''Park loop, reversed''\<rparr>"

definition riverside :: Route where
  "riverside =
     parkLoop\<lparr>Route.id := ''riverside'', name := ''Riverside'', avg_rating := 5, safety_rating := 5\<rparr>"

definition sampleStore :: Supabase where
  "sampleStore =
     \<lparr>user_preferences_single = (\<lambda>uid. Resolved None True),
      user_activity_stats_single = (\<lambda>uid. Resolved None True),
      running_history_rows = (\<lambda>uid. Resolved (Some []) False),
      routes_rows = Resolved (Some [parkLoop, riverside, parkLoopReverse]) False\<rparr>"

definition staleEngine :: RecommendationEngine where
  "staleEngine =
     \<lparr>userId = ''u2'',
      userProfile = Some
        \<lparr>UserProfile.id = ''u0'', fitness_level = 3,
         UserProfile.difficulty_preference = ''easy'',
         distance_range = Some \<lparr>range_min = 3, range_max = 6\<rparr>,
         terrain_preferences = Some [''flat''], time_preferences = [''morning''],
         weather_preferences = JNull, running_goals = []\<rparr>,
      userActivity = None,
      runningHistory =
        [\<lparr>RunningHistory.id = ''h1'', route_id = ''park-loop'', RunningHistory.distance = 5,
          duration = 30, RunningHistory.avg_pace = 6, user_rating = 5, effort_level = 3,
          weather_condition = ''clear'', completed_at = ''2024-05-01T07:00:00Z''\<rparr>]\<rparr>"

section \<open>Properties of the weather score\<close>

lemma temperatureBandScore_range: "0 < temperatureBandScore t \<and> temperatureBandScore t \<le> 1"
  by (simp add: temperatureBandScore_def)

lemma conditionLookupScore_cases:
  "conditionLookupScore c \<in> {1, 0.9, 0.4, 0.1, 0.2, 0.7}"
  by (simp add: conditionLookupScore_def conditionTable_def)

lemma conditionLookupScore_range: "0 < conditionLookupScore c \<and> conditionLookupScore c \<le> 1"
  using conditionLookupScore_cases [of c] by auto

lemma windBandScore_range: "0 < windBandScore v \<and> windBandScore v \<le> 1"
  by (simp add: windBandScore_def)

lemma humidityBandScore_range: "0 < humidityBandScore h \<and> humidityBandScore h \<le> 1"
  by (simp add: humidityBandScore_def)

lemma windBandScore_antimono: "v \<le> v' \<Longrightarrow> windBandScore v' \<le> windBandScore v"
  by (simp add: windBandScore_def)

lemma unit_interval_mult:
  fixes a b :: real
  assumes "0 < a" "a \<le> 1" "0 < b" "b \<le> 1"
  shows "0 < a * b \<and> a * b \<le> 1"
  using assms by (simp add: mult_le_one)

lemma bandProduct_range: "0 < bandProduct w \<and> bandProduct w \<le> 1"
proof -
  have a: "0 < temperatureBandScore (temperature w) * conditionLookupScore (condition w)
      \<and> temperatureBandScore (temperature w) * conditionLookupScore (condition w) \<le> 1"
    using temperatureBandScore_range conditionLookupScore_range
    by (intro unit_interval_mult) auto
  have b: "0 < temperatureBandScore (temperature w) * conditionLookupScore (condition w)
        * windBandScore (windSpeed w)
      \<and> temperatureBandScore (temperature w) * conditionLookupScore (condition w)
        * windBandScore (windSpeed w) \<le> 1"
    using a windBandScore_range by (intro unit_interval_mult) auto
  show ?thesis
    unfolding bandProduct_def
    using b humidityBandScore_range by (intro unit_interval_mult) auto
qed

lemma unclamped_is_bandProduct:
  "getWeatherSuitabilityScore w = max 0 (min 1 (bandProduct w))"
proof -
  have c: "(if condition w = ''clear'' \<or> condition w = ''sunny''
               \<or> condition w = ''partly-cloudy'' then s * 1.0
            else if condition w = ''cloudy'' \<or> condition w = ''overcast'' then s * 0.9
            else if condition w = ''light-rain'' then s * 0.4
            else if condition w = ''rain'' \<or> condition w = ''heavy-rain'' then s * 0.1
            else if condition w = ''snow'' \<or> condition w = ''fog'' then s * 0.2
            else s * 0.7) = s * conditionLookupScore (condition w)" for s :: real
    by (simp add: conditionLookupScore_def conditionTable_def)
  have t: "(if temperature w \<ge> 15 \<and> temperature w \<le> 25 then 1 * 1.0
            else if temperature w \<ge> 10 \<and> temperature w \<le> 30 then 1 * 0.8
            else if temperature w \<ge> 5 \<and> temperature w \<le> 35 then 1 * 0.6
            else 1 * 0.3) = temperatureBandScore (temperature w)"
    by (simp add: temperatureBandScore_def)
  have v: "(if windSpeed w \<le> 10 then s * 1.0
            else if windSpeed w \<le> 20 then s * 0.8
            else s * 0.5) = s * windBandScore (windSpeed w)" for s :: real
    by (simp add: windBandScore_def)
  have h: "(if humidity w \<ge> 40 \<and> humidity w \<le> 70 then s * 1.0
            else if humidity w \<ge> 30 \<and> humidity w \<le> 80 then s * 0.9
            else s * 0.7) = s * humidityBandScore (humidity w)" for s :: real
    by (simp add: humidityBandScore_def)
  show ?thesis
    unfolding getWeatherSuitabilityScore_def Let_def bandProduct_def c t v h ..
qed

lemma score_is_bandProduct: "getWeatherSuitabilityScore w = bandProduct w"
  using bandProduct_range [of w] by (simp add: unclamped_is_bandProduct)

text \<open>
  C2: for every weather reading the suitability score is the product of exactly four
  sub-scores (temperature band, condition lookup, wind-speed band, humidity band): the final
  clamp never changes the product. At temperature 20, humidity 55 and wind speed 5 the
  score is 1.0 under the condition "clear" and 0.1 under the condition "rain".
\<close>

theorem weather_score_is_product_of_four:
  "getWeatherSuitabilityScore w =
     temperatureBandScore (temperature w) * conditionLookupScore (condition w)
       * windBandScore (windSpeed w) * humidityBandScore (humidity w)
   \<and> getWeatherSuitabilityScore
       \<lparr>temperature = 20, condition = ''clear'', humidity = 55, windSpeed = 5,
        description = d, icon = i, uvIndex = u, visibility = vi, pressure = p,
        feelsLike = fl\<rparr> = 1.0
   \<and> getWeatherSuitabilityScore
       \<lparr>temperature = 20, condition = ''rain'', humidity = 55, windSpeed = 5,
        description = d, icon = i, uvIndex = u, visibility = vi, pressure = p,
        feelsLike = fl\<rparr> = 0.1"
proof (intro conjI)
  show "getWeatherSuitabilityScore w =
     temperatureBandScore (temperature w) * conditionLookupScore (condition w)
       * windBandScore (windSpeed w) * humidityBandScore (humidity w)"
    using score_is_bandProduct [of w] by (simp add: bandProduct_def)
next
  show "getWeatherSuitabilityScore
       \<lparr>temperature = 20, condition = ''clear'', humidity = 55, windSpeed = 5,
        description = d, icon = i, uvIndex = u, visibility = vi, pressure = p,
        feelsLike = fl\<rparr> = 1.0"
    by (simp add: getWeatherSuitabilityScore_def)
next
  show "getWeatherSuitabilityScore
       \<lparr>temperature = 20, condition = ''rain'', humidity = 55, windSpeed = 5,
        description = d, icon = i, uvIndex = u, visibility = vi, pressure = p,
        feelsLike = fl\<rparr> = 0.1"
    by (simp add: getWeatherSuitabilityScore_def)
qed

text \<open>
  C3: for every weather reading the suitability score lies in [0,1], and with temperature,
  condition and humidity held fixed it does not increase when the wind speed increases
  (across the bands up to 10, up to 20, and above 20).
\<close>

theorem weather_score_range_and_wind_monotone:
  "0 \<le> getWeatherSuitabilityScore w \<and> getWeatherSuitabilityScore w \<le> 1
   \<and> (v \<le> v' \<longrightarrow>
        getWeatherSuitabilityScore (w\<lparr>windSpeed := v'\<rparr>)
          \<le> getWeatherSuitabilityScore (w\<lparr>windSpeed := v\<rparr>))"
proof (intro conjI impI)
  show "0 \<le> getWeatherSuitabilityScore w"
    using bandProduct_range [of w] by (simp add: score_is_bandProduct)
  show "getWeatherSuitabilityScore w \<le> 1"
    using bandProduct_range [of w] by (simp add: score_is_bandProduct)
next
  assume le: "v \<le> v'"
  let ?k = "temperatureBandScore (temperature w) * conditionLookupScore (condition w)"
  have k: "0 \<le> ?k"
    using temperatureBandScore_range [of "temperature w"]
      conditionLookupScore_range [of "condition w"] by simp
  have h: "0 \<le> humidityBandScore (humidity w)"
    using humidityBandScore_range [of "humidity w"] by simp
  have "?k * windBandScore v' \<le> ?k * windBandScore v"
    using windBandScore_antimono [OF le] k by (rule mult_left_mono)
  then have "?k * windBandScore v' * humidityBandScore (humidity w)
      \<le> ?k * windBandScore v * humidityBandScore (humidity w)"
    using h by (rule mult_right_mono)
  then show "getWeatherSuitabilityScore (w\<lparr>windSpeed := v'\<rparr>)
      \<le> getWeatherSuitabilityScore (w\<lparr>windSpeed := v\<rparr>)"
    by (simp add: score_is_bandProduct bandProduct_def)
qed

theorem weather_score_range_and_wind_monotone_witness:
  "0 \<le> getWeatherSuitabilityScore
       \<lparr>temperature = 20, condition = ''clear'', humidity = 55, windSpeed = 5,
        description = [], icon = [], uvIndex = None, visibility = None, pressure = None,
        feelsLike = None\<rparr>
   \<and> getWeatherSuitabilityScore
       \<lparr>temperature = 20, condition = ''clear'', humidity = 55, windSpeed = 5,
        description = [], icon = [], uvIndex = None, visibility = None, pressure = None,
        feelsLike = None\<rparr> \<le> 1
   \<and> (5::real) \<le> 15
   \<and> getWeatherSuitabilityScore
       \<lparr>temperature = 20, condition = ''clear'', humidity = 55, windSpeed = 15,
        description = [], icon = [], uvIndex = None, visibility = None, pressure = None,
        feelsLike = None\<rparr>
     \<le> getWeatherSuitabilityScore
       \<lparr>temperature = 20, condition = ''clear'', humidity = 55, windSpeed = 5,
        description = [], icon = [], uvIndex = None, visibility = None, pressure = None,
        feelsLike = None\<rparr>"
  using weather_score_range_and_wind_monotone
    [of "\<lparr>temperature = 20, condition = ''clear'', humidity = 55, windSpeed = 5,
        description = [], icon = [], uvIndex = None, visibility = None, pressure = None,
        feelsLike = None\<rparr>" 5 15]
  by simp

section \<open>Properties of the feedback learner\<close>

lemma roundToTenth_near: "\<bar>roundToTenth x - x\<bar> \<le> 1 / 20"
proof -
  define k where "k = \<lfloor>x * 10 + 1 / 2\<rfloor>"
  have lo: "of_int k \<le> x * 10 + 1 / 2"
    unfolding k_def by (rule of_int_floor_le)
  have hi: "x * 10 + 1 / 2 < of_int k + 1"
    unfolding k_def by linarith
  have e: "roundToTenth x = of_int k / 10"
    by (simp add: roundToTenth_def k_def)
  show ?thesis
    unfolding e abs_le_iff using lo hi by (intro conjI; linarith)
qed

lemma clamp_nonexpansive: "\<bar>clamp a lo hi - clamp b lo hi\<bar> \<le> \<bar>a - b\<bar>"
  unfolding clamp_def by linarith

lemma Math_round_tenth: "Math_round (x * 10) / 10 = roundToTenth x"
  by (simp add: Math_round_def roundToTenth_def)

lemma calculateNewPreference_rated:
  "newRating \<noteq> 0 \<Longrightarrow>
     calculateNewPreference old newRating overallRating =
       clamp (roundToTenth (old * 0.8 + newRating * (overallRating / 5) * 0.2)) 1 10"
  by (simp add: calculateNewPreference_def Let_def clamp_def Math_round_tenth)

lemma calculateNewPreference_unrated: "calculateNewPreference old 0 overallRating = old"
  by (simp add: calculateNewPreference_def)

lemma oneDecimal_of_int: "oneDecimal (of_int k / 10)"
  by (simp add: oneDecimal_def)

lemma oneDecimal_roundToTenth: "oneDecimal (roundToTenth x)"
  unfolding roundToTenth_def by (rule oneDecimal_of_int)

lemma oneDecimal_clamp: "oneDecimal x \<Longrightarrow> oneDecimal (clamp x 1 10)"
  by (auto simp: clamp_def max_def min_def oneDecimal_def)

lemma oneDecimal_rated:
  "newRating \<noteq> 0 \<Longrightarrow> oneDecimal (calculateNewPreference old newRating overallRating)"
  by (simp add: calculateNewPreference_rated oneDecimal_clamp oneDecimal_roundToTenth)

lemma oneDecimal_existingOrDefault:
  "(\<And>row x. existingPrefs = Some row \<Longrightarrow> column row = Some x \<Longrightarrow> oneDecimal x) \<Longrightarrow>
     oneDecimal (existingOrDefault existingPrefs column)"
  by (auto simp: existingOrDefault_def oneDecimal_def split: option.splits)

text \<open>
  C7, as the specification states it, does not hold: the learner does not store
  \<open>clamp(old*0.8 + observed*(overallRating/5)*0.2, 1, 10)\<close> itself. With a prior value of 5,
  an observed rating of 3 and an overall rating of 4 the formula gives 4.48, and
  \<open>calculateNewPreference\<close> returns 4.5.
\<close>

theorem ema_formula_counterexample:
  "emaUpdate 5 3 4 = 4.48 \<and> calculateNewPreference 5 3 4 = 4.5
   \<and> calculateNewPreference 5 3 4 \<noteq> emaUpdate 5 3 4"
  by (simp add: emaUpdate_def clamp_def calculateNewPreference_def Math_round_def)

lemma stored_difficulty:
  "PreferenceRow.difficulty_preference (updateUserPreferences e u fb) =
     Some (if difficulty fb = 0 then existingOrDefault e PreferenceRow.difficulty_preference
           else clamp (roundToTenth
                  (existingOrDefault e PreferenceRow.difficulty_preference * 0.8
                     + difficulty fb * (rating fb / 5) * 0.2)) 1 10)"
  by (simp add: updateUserPreferences_def calculateNewPreference_rated
      calculateNewPreference_unrated)

lemma stored_safety:
  "safety_importance (updateUserPreferences e u fb) =
     Some (if safety fb = 0 then existingOrDefault e safety_importance
           else clamp (roundToTenth
                  (existingOrDefault e safety_importance * 0.8
                     + safety fb * (rating fb / 5) * 0.2)) 1 10)"
  by (simp add: updateUserPreferences_def calculateNewPreference_rated
      calculateNewPreference_unrated)

lemma stored_scenery:
  "scenery_importance (updateUserPreferences e u fb) =
     Some (if scenery fb = 0 then existingOrDefault e scenery_importance
           else clamp (roundToTenth
                  (existingOrDefault e scenery_importance * 0.8
                     + scenery fb * (rating fb / 5) * 0.2)) 1 10)"
  by (simp add: updateUserPreferences_def calculateNewPreference_rated
      calculateNewPreference_unrated)

text \<open>
  C7 as amended: each preference dimension is updated from its own prior value and its own
  observed rating only (together with the overall rating), by
  \<open>new = clamp(round1(old*0.8 + observed*(overallRating/5)*0.2), 1, 10)\<close>, where \<open>round1\<close>
  rounds to one decimal, a half going up; the result is within 0.05 of the unrounded
  formula. A dimension whose observed rating is 0 keeps its value. This is what
  \<open>calculateNewPreference\<close> computes, and it is the value that \<open>updateUserPreferences\<close>
  stores in each of the three columns, from the column's prior value (5 when there is
  none) and the feedback's rating of that dimension. Feedback of difficulty 8 with overall
  rating 5 on a prior preference of 5 gives 5.6.
\<close>

theorem feedback_update_rule:
  "calculateNewPreference old observed overallRating =
     (if observed = 0 then old
      else clamp (roundToTenth (old * 0.8 + observed * (overallRating / 5) * 0.2)) 1 10)
   \<and> (observed \<noteq> 0 \<longrightarrow>
        \<bar>calculateNewPreference old observed overallRating - emaUpdate old observed overallRating\<bar>
          \<le> 1 / 20)
   \<and> PreferenceRow.difficulty_preference (updateUserPreferences e u fb) =
       Some (if difficulty fb = 0 then existingOrDefault e PreferenceRow.difficulty_preference
             else clamp (roundToTenth
                    (existingOrDefault e PreferenceRow.difficulty_preference * 0.8
                       + difficulty fb * (rating fb / 5) * 0.2)) 1 10)
   \<and> safety_importance (updateUserPreferences e u fb) =
       Some (if safety fb = 0 then existingOrDefault e safety_importance
             else clamp (roundToTenth
                    (existingOrDefault e safety_importance * 0.8
                       + safety fb * (rating fb / 5) * 0.2)) 1 10)
   \<and> scenery_importance (updateUserPreferences e u fb) =
       Some (if scenery fb = 0 then existingOrDefault e scenery_importance
             else clamp (roundToTenth
                    (existingOrDefault e scenery_importance * 0.8
                       + scenery fb * (rating fb / 5) * 0.2)) 1 10)
   \<and> (existingOrDefault e PreferenceRow.difficulty_preference
          = existingOrDefault e' PreferenceRow.difficulty_preference
        \<and> difficulty fb = difficulty fb' \<and> rating fb = rating fb' \<longrightarrow>
        PreferenceRow.difficulty_preference (updateUserPreferences e u fb)
          = PreferenceRow.difficulty_preference (updateUserPreferences e' u' fb'))
   \<and> (existingOrDefault e safety_importance = existingOrDefault e' safety_importance
        \<and> safety fb = safety fb' \<and> rating fb = rating fb' \<longrightarrow>
        safety_importance (updateUserPreferences e u fb)
          = safety_importance (updateUserPreferences e' u' fb'))
   \<and> (existingOrDefault e scenery_importance = existingOrDefault e' scenery_importance
        \<and> scenery fb = scenery fb' \<and> rating fb = rating fb' \<longrightarrow>
        scenery_importance (updateUserPreferences e u fb)
          = scenery_importance (updateUserPreferences e' u' fb'))
   \<and> calculateNewPreference 5 8 5 = 5.6"
proof (intro conjI impI)
  show "calculateNewPreference old observed overallRating =
     (if observed = 0 then old
      else clamp (roundToTenth (old * 0.8 + observed * (overallRating / 5) * 0.2)) 1 10)"
    by (simp add: calculateNewPreference_rated calculateNewPreference_unrated)
next
  assume "observed \<noteq> 0"
  then have "calculateNewPreference old observed overallRating =
      clamp (roundToTenth (old * 0.8 + observed * (overallRating / 5) * 0.2)) 1 10"
    by (rule calculateNewPreference_rated)
  moreover have "\<bar>clamp (roundToTenth (old * 0.8 + observed * (overallRating / 5) * 0.2)) 1 10
      - clamp (old * 0.8 + observed * (overallRating / 5) * 0.2) 1 10\<bar> \<le> 1 / 20"
    using clamp_nonexpansive roundToTenth_near by (rule order_trans)
  ultimately show "\<bar>calculateNewPreference old observed overallRating
      - emaUpdate old observed overallRating\<bar> \<le> 1 / 20"
    by (simp add: emaUpdate_def)
next
  show "calculateNewPreference 5 8 5 = 5.6"
    by (simp add: calculateNewPreference_def Math_round_def)
next
  show "PreferenceRow.difficulty_preference (updateUserPreferences e u fb) =
       Some (if difficulty fb = 0 then existingOrDefault e PreferenceRow.difficulty_preference
             else clamp (roundToTenth
                    (existingOrDefault e PreferenceRow.difficulty_preference * 0.8
                       + difficulty fb * (rating fb / 5) * 0.2)) 1 10)"
    by (rule stored_difficulty)
next
  show "safety_importance (updateUserPreferences e u fb) =
       Some (if safety fb = 0 then existingOrDefault e safety_importance
             else clamp (roundToTenth
                    (existingOrDefault e safety_importance * 0.8
                       + safety fb * (rating fb / 5) * 0.2)) 1 10)"
    by (rule stored_safety)
next
  show "scenery_importance (updateUserPreferences e u fb) =
       Some (if scenery fb = 0 then existingOrDefault e scenery_importance
             else clamp (roundToTenth
                    (existingOrDefault e scenery_importance * 0.8
                       + scenery fb * (rating fb / 5) * 0.2)) 1 10)"
    by (rule stored_scenery)
qed (simp_all add: updateUserPreferences_def)

theorem feedback_update_rule_witness:
  "calculateNewPreference 5 3 4 = 4.5
   \<and> (3::real) \<noteq> 0
   \<and> \<bar>calculateNewPreference 5 3 4 - emaUpdate 5 3 4\<bar> \<le> 1 / 20
   \<and> PreferenceRow.difficulty_preference
       (updateUserPreferences None ''u1''
         \<lparr>routeId = ''route-1'', rating = 5, difficulty = 8, safety = 0, scenery = 3,
          tags = [], comment = [], wouldRecommend = None\<rparr>) = Some 5.6
   \<and> safety_importance
       (updateUserPreferences None ''u1''
         \<lparr>routeId = ''route-1'', rating = 5, difficulty = 8, safety = 0, scenery = 3,
          tags = [], comment = [], wouldRecommend = None\<rparr>) = Some 5
   \<and> scenery_importance
       (updateUserPreferences None ''u1''
         \<lparr>routeId = ''route-1'', rating = 5, difficulty = 8, safety = 0, scenery = 3,
          tags = [], comment = [], wouldRecommend = None\<rparr>) = Some 4.6
   \<and> PreferenceRow.difficulty_preference
       (updateUserPreferences None ''u1''
         \<lparr>routeId = ''route-1'', rating = 5, difficulty = 8, safety = 0, scenery = 3,
          tags = [], comment = [], wouldRecommend = None\<rparr>)
     = PreferenceRow.difficulty_preference
       (updateUserPreferences
         (Some \<lparr>user_id = ''u2'', difficulty_preference = Some 5, safety_importance = Some 9,
                scenery_importance = None\<rparr>) ''u2''
         \<lparr>routeId = ''route-2'', rating = 5, difficulty = 8, safety = 7, scenery = 0,
          tags = [], comment = [], wouldRecommend = None\<rparr>)
   \<and> calculateNewPreference 5 8 5 = 5.6"
  using feedback_update_rule [where old = 5 and observed = 3 and overallRating = 4
      and e = None
      and e' = "Some \<lparr>user_id = ''u2'', difficulty_preference = Some 5,
                safety_importance = Some 9, scenery_importance = None\<rparr>"
      and fb = "\<lparr>routeId = ''route-1'', rating = 5, difficulty = 8, safety = 0, scenery = 3,
          tags = [], comment = [], wouldRecommend = None\<rparr>"
      and fb' = "\<lparr>routeId = ''route-2'', rating = 5, difficulty = 8, safety = 7, scenery = 0,
          tags = [], comment = [], wouldRecommend = None\<rparr>"
      and u = "''u1''" and u' = "''u2''"]
  by (simp add: existingOrDefault_def clamp_def roundToTenth_def updateUserPreferences_def
      calculateNewPreference_def Math_round_def)

text \<open>
  C8: for every prior preference value in [1,10] and all rating inputs (any observed rating
  of the dimension, any overall rating) the value produced by the feedback update stays in
  [1,10].
\<close>

theorem feedback_update_bounds:
  "1 \<le> p \<and> p \<le> 10 \<Longrightarrow>
     1 \<le> calculateNewPreference p observed overallRating
     \<and> calculateNewPreference p observed overallRating \<le> 10"
  by (simp add: calculateNewPreference_def Let_def)

theorem feedback_update_bounds_witness:
  "(1::real) \<le> 5 \<and> (5::real) \<le> 10
   \<and> 1 \<le> calculateNewPreference 5 8 5 \<and> calculateNewPreference 5 8 5 \<le> 10"
  using feedback_update_bounds [of 5 8 5] by simp

lemma stored_one_decimal_when_rated: "oneDecimal (clamp (roundToTenth x) 1 10)"
  by (intro oneDecimal_clamp oneDecimal_roundToTenth)

text \<open>
  C10, as it is stated, does not hold: the value the learner stores is not always rounded
  to one decimal. A dimension whose observed rating is 0 is stored with its prior value as
  it is: a prior difficulty preference of 5.55 and feedback that does not rate the
  difficulty leave 5.55 in the stored row.
\<close>

theorem unrated_prior_counterexample:
  "calculateNewPreference 5.55 0 4 = 5.55
   \<and> PreferenceRow.difficulty_preference
       (updateUserPreferences
         (Some \<lparr>user_id = ''u2'', difficulty_preference = Some 5.55,
                safety_importance = Some 9, scenery_importance = None\<rparr>) ''u2''
         \<lparr>routeId = ''route-2'', rating = 4, difficulty = 0, safety = 7, scenery = 0,
          tags = [], comment = [], wouldRecommend = None\<rparr>) = Some 5.55
   \<and> \<not> oneDecimal 5.55"
  by (simp add: calculateNewPreference_def updateUserPreferences_def existingOrDefault_def
      oneDecimal_def)

text \<open>
  C10 as amended: a preference value that the learner updates (a dimension with an observed
  rating other than 0) is always rounded to one decimal before it is stored, whatever the
  prior value: the value \<open>updateUserPreferences\<close> stores in the column is a multiple of
  0.1, and not the exact result of the weighted average (4.5 where the average is 4.48). A
  dimension with the observed rating 0 is stored with its prior value unchanged (5 when
  there is none), so it has one decimal whenever the prior value had.
\<close>

theorem stored_preference_one_decimal:
  "(observed \<noteq> 0 \<longrightarrow> oneDecimal (calculateNewPreference old observed overallRating))
   \<and> calculateNewPreference old 0 overallRating = old
   \<and> (difficulty fb \<noteq> 0 \<longrightarrow>
        (\<exists>y. PreferenceRow.difficulty_preference (updateUserPreferences e u fb) = Some y
             \<and> oneDecimal y))
   \<and> (safety fb \<noteq> 0 \<longrightarrow>
        (\<exists>y. safety_importance (updateUserPreferences e u fb) = Some y \<and> oneDecimal y))
   \<and> (scenery fb \<noteq> 0 \<longrightarrow>
        (\<exists>y. scenery_importance (updateUserPreferences e u fb) = Some y \<and> oneDecimal y))
   \<and> (difficulty fb = 0 \<longrightarrow>
        PreferenceRow.difficulty_preference (updateUserPreferences e u fb)
          = Some (existingOrDefault e PreferenceRow.difficulty_preference))
   \<and> (safety fb = 0 \<longrightarrow>
        safety_importance (updateUserPreferences e u fb)
          = Some (existingOrDefault e safety_importance))
   \<and> (scenery fb = 0 \<longrightarrow>
        scenery_importance (updateUserPreferences e u fb)
          = Some (existingOrDefault e scenery_importance))
   \<and> (oneDecimal old \<longrightarrow> oneDecimal (calculateNewPreference old observed overallRating))
   \<and> ((\<forall>row x. e = Some row \<and> PreferenceRow.difficulty_preference row = Some x \<longrightarrow> oneDecimal x)
        \<longrightarrow> (\<exists>y. PreferenceRow.difficulty_preference (updateUserPreferences e u fb) = Some y
                \<and> oneDecimal y))
   \<and> ((\<forall>row x. e = Some row \<and> safety_importance row = Some x \<longrightarrow> oneDecimal x)
        \<longrightarrow> (\<exists>y. safety_importance (updateUserPreferences e u fb) = Some y \<and> oneDecimal y))
   \<and> ((\<forall>row x. e = Some row \<and> scenery_importance row = Some x \<longrightarrow> oneDecimal x)
        \<longrightarrow> (\<exists>y. scenery_importance (updateUserPreferences e u fb) = Some y \<and> oneDecimal y))
   \<and> calculateNewPreference 5 3 4 = 4.5
   \<and> 5 * 0.8 + 3 * (4 / 5) * 0.2 = (4.48 :: real)"
proof -
  have pass: "oneDecimal c \<Longrightarrow> oneDecimal (calculateNewPreference c n r)" for c n r
    by (cases "n = 0") (simp_all add: calculateNewPreference_unrated oneDecimal_rated)
  have row: "(\<forall>row x. e = Some row \<and> column row = Some x \<longrightarrow> oneDecimal x) \<Longrightarrow>
      oneDecimal (calculateNewPreference (existingOrDefault e column) n r)" for column n r
    by (rule pass, rule oneDecimal_existingOrDefault) blast
  show ?thesis
  proof (intro conjI impI)
    show "calculateNewPreference 5 3 4 = 4.5"
      by (simp add: calculateNewPreference_def Math_round_def)
    show "5 * 0.8 + 3 * (4 / 5) * 0.2 = (4.48 :: real)"
      by simp
    show "calculateNewPreference old 0 overallRating = old"
      by (rule calculateNewPreference_unrated)
  next
    assume "difficulty fb \<noteq> 0"
    then show "\<exists>y. PreferenceRow.difficulty_preference (updateUserPreferences e u fb) = Some y
        \<and> oneDecimal y"
      by (simp add: stored_difficulty stored_one_decimal_when_rated)
  next
    assume "safety fb \<noteq> 0"
    then show "\<exists>y. safety_importance (updateUserPreferences e u fb) = Some y \<and> oneDecimal y"
      by (simp add: stored_safety stored_one_decimal_when_rated)
  next
    assume "scenery fb \<noteq> 0"
    then show "\<exists>y. scenery_importance (updateUserPreferences e u fb) = Some y \<and> oneDecimal y"
      by (simp add: stored_scenery stored_one_decimal_when_rated)
  next
    assume "difficulty fb = 0"
    then show "PreferenceRow.difficulty_preference (updateUserPreferences e u fb)
        = Some (existingOrDefault e PreferenceRow.difficulty_preference)"
      by (simp add: stored_difficulty)
  next
    assume "safety fb = 0"
    then show "safety_importance (updateUserPreferences e u fb)
        = Some (existingOrDefault e safety_importance)"
      by (simp add: stored_safety)
  next
    assume "scenery fb = 0"
    then show "scenery_importance (updateUserPreferences e u fb)
        = Some (existingOrDefault e scenery_importance)"
      by (simp add: stored_scenery)
  qed (simp_all add: oneDecimal_rated pass row updateUserPreferences_def)
qed

theorem stored_preference_one_decimal_witness:
  "(3::real) \<noteq> 0 \<and> oneDecimal (calculateNewPreference 5 3 4)
   \<and> \<not> oneDecimal 5.55
   \<and> (8::real) \<noteq> 0
   \<and> PreferenceRow.difficulty_preference
       (updateUserPreferences
         (Some \<lparr>user_id = ''u2'', difficulty_preference = Some 5.55,
                safety_importance = Some 9, scenery_importance = None\<rparr>) ''u2''
         \<lparr>routeId = ''route-2'', rating = 5, difficulty = 8, safety = 7, scenery = 0,
          tags = [], comment = [], wouldRecommend = None\<rparr>) = Some 6
   \<and> oneDecimal 6
   \<and> (7::real) \<noteq> 0
   \<and> safety_importance
       (updateUserPreferences
         (Some \<lparr>user_id = ''u2'', difficulty_preference = Some 5.55,
                safety_importance = Some 9, scenery_importance = None\<rparr>) ''u2''
         \<lparr>routeId = ''route-2'', rating = 5, difficulty = 8, safety = 7, scenery = 0,
          tags = [], comment = [], wouldRecommend = None\<rparr>) = Some 8.6
   \<and> oneDecimal 8.6
   \<and> scenery_importance
       (updateUserPreferences
         (Some \<lparr>user_id = ''u2'', difficulty_preference = Some 5.55,
                safety_importance = Some 9, scenery_importance = None\<rparr>) ''u2''
         \<lparr>routeId = ''route-2'', rating = 5, difficulty = 8, safety = 7, scenery = 0,
          tags = [], comment = [], wouldRecommend = None\<rparr>) = Some 5
   \<and> calculateNewPreference 5 3 4 = 4.5"
proof -
  note w = stored_preference_one_decimal [where observed = 3 and old = 5 and overallRating = 4
      and e = "Some \<lparr>user_id = ''u2'', difficulty_preference = Some 5.55,
                safety_importance = Some 9, scenery_importance = None\<rparr>"
      and u = "''u2''"
      and fb = "\<lparr>routeId = ''route-2'', rating = 5, difficulty = 8, safety = 7, scenery = 0,
          tags = [], comment = [], wouldRecommend = None\<rparr>"]
  have d: "PreferenceRow.difficulty_preference
       (updateUserPreferences
         (Some \<lparr>user_id = ''u2'', difficulty_preference = Some 5.55,
                safety_importance = Some 9, scenery_importance = None\<rparr>) ''u2''
         \<lparr>routeId = ''route-2'', rating = 5, difficulty = 8, safety = 7, scenery = 0,
          tags = [], comment = [], wouldRecommend = None\<rparr>) = Some 6"
    by (simp add: updateUserPreferences_def existingOrDefault_def calculateNewPreference_def
        Math_round_def)
  have s: "safety_importance
       (updateUserPreferences
         (Some \<lparr>user_id = ''u2'', difficulty_preference = Some 5.55,
                safety_importance = Some 9, scenery_importance = None\<rparr>) ''u2''
         \<lparr>routeId = ''route-2'', rating = 5, difficulty = 8, safety = 7, scenery = 0,
          tags = [], comment = [], wouldRecommend = None\<rparr>) = Some 8.6"
    by (simp add: updateUserPreferences_def existingOrDefault_def calculateNewPreference_def
        Math_round_def)
  have n: "\<not> oneDecimal 5.55"
    by (simp add: oneDecimal_def)
  show ?thesis
    using w d s n by (simp add: existingOrDefault_def oneDecimal_def)
qed

section \<open>Properties of the recommendation engine\<close>

subsection \<open>Sorting and slicing\<close>

text \<open>
  Sorting with the comparison \<open>b.confidence_score - a.confidence_score\<close> is the library's
  insertion sort on the key \<open>- confidence_score\<close>.
\<close>

lemma insertSorted_insort:
  "insertSorted (\<lambda>a b. key b - key a) x ys = insort_key (\<lambda>a. - key a) x ys"
  for key :: "'a \<Rightarrow> real"
  by (induction ys) auto

lemma Array_sort_sort_key:
  "Array_sort xs (\<lambda>a b. key b - key a) = sort_key (\<lambda>a. - key a) xs"
  for key :: "'a \<Rightarrow> real"
  by (induction xs) (simp_all add: Array_sort_def insertSorted_insort)

lemma length_Array_slice0:
  "0 \<le> limit \<Longrightarrow> int (length (Array_slice0 xs limit)) = min limit (int (length xs))"
  by (simp add: Array_slice0_def Let_def)

lemma set_Array_slice0: "set (Array_slice0 xs limit) \<subseteq> set xs"
  by (simp add: Array_slice0_def Let_def set_take_subset)

lemma Array_slice0_prefix: "prefix (Array_slice0 xs limit) xs"
  by (simp add: Array_slice0_def Let_def take_is_prefix)

lemma generateRecommendations_sorted:
  "snd (generateRecommendations supabase this weather timeOfDay limit) =
     Array_slice0
       (sort_key (\<lambda>a. - confidence_score a) (candidates supabase this weather timeOfDay))
       limit"
  by (simp add: generateRecommendations_def Let_def Array_sort_sort_key candidates_def)

subsection \<open>Ranges of the calculators\<close>

lemma calculateHistoryMatch_range:
  "0 \<le> calculateHistoryMatch this r \<and> calculateHistoryMatch this r \<le> 1"
  by (simp add: calculateHistoryMatch_def Let_def)

lemma calculateNoveltyScore_range:
  "0 \<le> calculateNoveltyScore this r \<and> calculateNoveltyScore this r \<le> 1"
  by (simp add: calculateNoveltyScore_def Let_def)

lemma calculateTimeMatch_range:
  "0 \<le> calculateTimeMatch r timeOfDay \<and> calculateTimeMatch r timeOfDay \<le> 1"
  by (simp add: calculateTimeMatch_def Let_def)

lemma calculateWeatherMatch_range:
  "0 \<le> calculateWeatherMatch r weather \<and> calculateWeatherMatch r weather \<le> 1"
proof -
  define ws where "ws = getWeatherSuitabilityScore weather"
  have ws: "0 \<le> ws"
    using bandProduct_range [of weather] by (simp add: ws_def score_is_bandProduct)
  show ?thesis
    unfolding calculateWeatherMatch_def Let_def ws_def [symmetric]
    by (simp add: ws)
qed

subsection \<open>The example data evaluated\<close>

lemmas sample_defs =
  sampleStore_def createRecommendationEngine_def sampleWeather_def
  loadUserData_def getAllRoutes_def recommendationFor_def Let_def parkLoop_def
  parkLoopReverse_def riverside_def calculateUserRouteMatch_def calculateHistoryMatch_def
  calculateNoveltyScore_def calculateWeatherMatch_def calculateTimeMatch_def
  getWeatherSuitabilityScore_def confidenceScore_def

lemma sampleCandidates_scores:
  "map confidence_score
     (candidates sampleStore (createRecommendationEngine ''u1'') sampleWeather ''morning'')
     = [0.745, 0.775, 0.745]"
  by (simp add: candidates_def sample_defs)

lemma subScores_parkLoop:
  "subScores (loadUserData sampleStore (createRecommendationEngine ''u1'')) sampleWeather
      ''morning'' parkLoop = [0.5, 0.5, 1, 1, 0.8, 0.8, 1]"
  by (simp add: subScores_def sample_defs)

subsection \<open>Time-of-day match\<close>

text \<open>
  C9, as the specification states it, does not hold: the calculator does not return the
  suitability value it looks up. The second built-in route has the value 0.4 for the bucket
  "night", and its time match at night is 1.0.
\<close>

theorem time_match_counterexample:
  "member (time_suitability (getFallbackRoutes ! 1)) ''night'' = JNum 0.4
   \<and> calculateTimeMatch (getFallbackRoutes ! 1) ''night'' = 1
   \<and> calculateTimeMatch (getFallbackRoutes ! 1) ''night'' \<noteq> 0.4"
  by (simp add: getFallbackRoutes_def calculateTimeMatch_def)

text \<open>
  C9 as amended: the time-of-day match is 1.0 whenever the route has a suitability table
  and the table's entry for the current time bucket is present and truthy (whatever its
  value); when the table is there and the entry is absent (or falsy), the bucket "night"
  gives the fallback of the lighting quality in three tiers (excellent 0.8, good 0.6,
  anything else 0.2) and any other bucket gives 0.5; a route without a suitability table
  gets 0.5, also at night.
\<close>

theorem time_match_tiers:
  "(truthy (time_suitability r) \<and> truthy (member (time_suitability r) timeOfDay)
      \<longrightarrow> calculateTimeMatch r timeOfDay = 1.0)
   \<and> (truthy (time_suitability r) \<and> \<not> truthy (member (time_suitability r) timeOfDay)
        \<and> timeOfDay = ''night''
      \<longrightarrow> calculateTimeMatch r timeOfDay = lightingFallback (lighting_quality r))
   \<and> (truthy (time_suitability r) \<and> \<not> truthy (member (time_suitability r) timeOfDay)
        \<and> timeOfDay \<noteq> ''night''
      \<longrightarrow> calculateTimeMatch r timeOfDay = 0.5)
   \<and> (\<not> truthy (time_suitability r) \<longrightarrow> calculateTimeMatch r timeOfDay = 0.5)
   \<and> lightingFallback ''excellent'' = 0.8 \<and> lightingFallback ''good'' = 0.6
   \<and> (q \<noteq> ''excellent'' \<and> q \<noteq> ''good'' \<longrightarrow> lightingFallback q = 0.2)"
  by (auto simp: calculateTimeMatch_def lightingFallback_def)

theorem time_match_tiers_witness:
  "truthy (time_suitability (getFallbackRoutes ! 1))
   \<and> truthy (member (time_suitability (getFallbackRoutes ! 1)) ''night'')
   \<and> calculateTimeMatch (getFallbackRoutes ! 1) ''night'' = 1.0
   \<and> \<not> truthy (member (time_suitability (getFallbackRoutes ! 1)) ''dawn'')
   \<and> ''dawn'' \<noteq> ''night''
   \<and> calculateTimeMatch (getFallbackRoutes ! 1) ''dawn'' = 0.5
   \<and> truthy (time_suitability (parkLoop\<lparr>lighting_quality := ''fair''\<rparr>))
   \<and> \<not> truthy (member (time_suitability (parkLoop\<lparr>lighting_quality := ''fair''\<rparr>)) ''night'')
   \<and> calculateTimeMatch (parkLoop\<lparr>lighting_quality := ''fair''\<rparr>) ''night'' = 0.2
   \<and> \<not> truthy (time_suitability (parkLoop\<lparr>time_suitability := JNull\<rparr>))
   \<and> calculateTimeMatch (parkLoop\<lparr>time_suitability := JNull\<rparr>) ''night'' = 0.5
   \<and> ''fair'' \<noteq> ''excellent'' \<and> ''fair'' \<noteq> ''good'' \<and> lightingFallback ''fair'' = 0.2"
  using time_match_tiers [of "getFallbackRoutes ! 1" "''night''" "''fair''"]
    time_match_tiers [of "getFallbackRoutes ! 1" "''dawn''" "''fair''"]
    time_match_tiers [of "parkLoop\<lparr>lighting_quality := ''fair''\<rparr>" "''night''" "''fair''"]
    time_match_tiers [of "parkLoop\<lparr>time_suitability := JNull\<rparr>" "''night''" "''fair''"]
  by (simp add: getFallbackRoutes_def parkLoop_def)

subsection \<open>The aggregate confidence score\<close>

lemma confidence_is_dotProduct:
  "confidence_score (recommendationFor this weather timeOfDay r) =
     dotProduct aggregationWeights (subScores this weather timeOfDay r)"
  by (simp add: recommendationFor_def Let_def confidenceScore_def dotProduct_def
      aggregationWeights_def subScores_def)

lemma route_recommendationFor: "route (recommendationFor this weather timeOfDay r) = r"
  by (simp add: recommendationFor_def Let_def)

lemma returned_is_candidate:
  assumes "x \<in> set (snd (generateRecommendations supabase this weather timeOfDay limit))"
  shows "x \<in> set (candidates supabase this weather timeOfDay)"
  using assms set_Array_slice0 unfolding generateRecommendations_sorted by fastforce

lemma candidate_is_recommendationFor:
  assumes "x \<in> set (candidates supabase this weather timeOfDay)"
  shows "x = recommendationFor (loadUserData supabase this) weather timeOfDay (route x)"
  using assms by (auto simp: candidates_def route_recommendationFor)

lemma dotProduct_unit_interval:
  assumes "\<forall>x \<in> set [a, b, c, d, e, f, g]. 0 \<le> x \<and> x \<le> (1::real)"
  shows "0 \<le> dotProduct aggregationWeights [a, b, c, d, e, f, g]
     \<and> dotProduct aggregationWeights [a, b, c, d, e, f, g] \<le> 1"
  using assms by (simp add: dotProduct_def aggregationWeights_def)

text \<open>
  C1: the confidence score of every recommendation that \<open>generateRecommendations\<close> returns
  is the dot product of the fixed weights 0.25, 0.20, 0.20, 0.15, 0.10, 0.05, 0.05 (which
  sum to 1) with the route's sub-scores (preference match, history match, weather match,
  time match, safety rating over 5, popularity, novelty), and it lies in [0,1] whenever all
  seven sub-scores do. All sub-scores 1 give 1, all sub-scores 0 give 0. The history,
  weather, time and novelty sub-scores are in [0,1] for every input.
\<close>

theorem confidence_score_weighted_sum:
  "(x \<in> set (snd (generateRecommendations supabase this weather timeOfDay limit)) \<longrightarrow>
      confidence_score x =
        dotProduct aggregationWeights
          (subScores (loadUserData supabase this) weather timeOfDay (route x))
      \<and> ((\<forall>s \<in> set (subScores (loadUserData supabase this) weather timeOfDay (route x)).
             0 \<le> s \<and> s \<le> 1)
          \<longrightarrow> 0 \<le> confidence_score x \<and> confidence_score x \<le> 1))
   \<and> aggregationWeights = [0.25, 0.20, 0.20, 0.15, 0.10, 0.05, 0.05]
   \<and> sum_list aggregationWeights = 1
   \<and> confidenceScore u h w t s p n = dotProduct aggregationWeights [u, h, w, t, s, p, n]
   \<and> confidenceScore 1 1 1 1 1 1 1 = 1
   \<and> confidenceScore 0 0 0 0 0 0 0 = 0
   \<and> 0 \<le> calculateHistoryMatch this' r \<and> calculateHistoryMatch this' r \<le> 1
   \<and> 0 \<le> calculateWeatherMatch r weather \<and> calculateWeatherMatch r weather \<le> 1
   \<and> 0 \<le> calculateTimeMatch r timeOfDay \<and> calculateTimeMatch r timeOfDay \<le> 1
   \<and> 0 \<le> calculateNoveltyScore this' r \<and> calculateNoveltyScore this' r \<le> 1"
proof (intro conjI impI)
  assume x: "x \<in> set (snd (generateRecommendations supabase this weather timeOfDay limit))"
  let ?subs = "subScores (loadUserData supabase this) weather timeOfDay (route x)"
  have "x = recommendationFor (loadUserData supabase this) weather timeOfDay (route x)"
    using x by (intro candidate_is_recommendationFor returned_is_candidate)
  then show dot: "confidence_score x = dotProduct aggregationWeights ?subs"
    using confidence_is_dotProduct by metis
  assume "\<forall>s \<in> set ?subs. 0 \<le> s \<and> s \<le> 1"
  then have "0 \<le> dotProduct aggregationWeights ?subs \<and> dotProduct aggregationWeights ?subs \<le> 1"
    unfolding subScores_def by (rule dotProduct_unit_interval)
  then show "0 \<le> confidence_score x" "confidence_score x \<le> 1"
    using dot by simp_all
qed (simp_all add: aggregationWeights_def confidenceScore_def dotProduct_def
      calculateHistoryMatch_range calculateWeatherMatch_range calculateTimeMatch_range
      calculateNoveltyScore_range)

theorem confidence_score_weighted_sum_witness:
  "recommendationFor (loadUserData sampleStore (createRecommendationEngine ''u1'')) sampleWeather
       ''morning'' parkLoop
     \<in> set (snd (generateRecommendations sampleStore (createRecommendationEngine ''u1'')
                  sampleWeather ''morning'' 6))
   \<and> subScores (loadUserData sampleStore (createRecommendationEngine ''u1'')) sampleWeather
        ''morning'' parkLoop = [0.5, 0.5, 1, 1, 0.8, 0.8, 1]
   \<and> confidence_score
        (recommendationFor (loadUserData sampleStore (createRecommendationEngine ''u1''))
           sampleWeather ''morning'' parkLoop) = 0.745
   \<and> 0 \<le> confidence_score
        (recommendationFor (loadUserData sampleStore (createRecommendationEngine ''u1''))
           sampleWeather ''morning'' parkLoop)
   \<and> confidence_score
        (recommendationFor (loadUserData sampleStore (createRecommendationEngine ''u1''))
           sampleWeather ''morning'' parkLoop) \<le> 1"
proof -
  let ?eng = "loadUserData sampleStore (createRecommendationEngine ''u1'')"
  let ?x = "recommendationFor ?eng sampleWeather ''morning'' parkLoop"
  let ?out = "snd (generateRecommendations sampleStore (createRecommendationEngine ''u1'')
                  sampleWeather ''morning'' 6)"
  have routes: "getAllRoutes sampleStore = [parkLoop, riverside, parkLoopReverse]"
    by (simp add: getAllRoutes_def sampleStore_def)
  have len: "length (candidates sampleStore (createRecommendationEngine ''u1'') sampleWeather
      ''morning'') = 3"
    by (simp add: candidates_def routes)
  have "set ?out = set (candidates sampleStore (createRecommendationEngine ''u1'') sampleWeather
      ''morning'')"
    by (simp add: generateRecommendations_sorted Array_slice0_def Let_def len)
  then have mem: "?x \<in> set ?out"
    by (simp add: candidates_def routes)
  have r: "route ?x = parkLoop"
    by (rule route_recommendationFor)
  have subs: "subScores ?eng sampleWeather ''morning'' parkLoop = [0.5, 0.5, 1, 1, 0.8, 0.8, 1]"
    by (rule subScores_parkLoop)
  note w = confidence_score_weighted_sum [of ?x sampleStore "createRecommendationEngine ''u1''"
        sampleWeather "''morning''" 6 0 0 0 0 0 0 0 ?eng parkLoop]
  have "confidence_score ?x = 0.745"
    using w mem by (simp add: r subs dotProduct_def aggregationWeights_def)
  moreover have "0 \<le> confidence_score ?x \<and> confidence_score ?x \<le> 1"
    using w mem by (simp add: r subs)
  ultimately show ?thesis
    using mem subs by simp
qed

subsection \<open>Stability of the ranking\<close>

lemma nth_pair_subseq:
  assumes "i < j" "j < length xs"
  shows "subseq [xs ! i, xs ! j] xs"
proof -
  have i: "i < length xs"
    using assms by simp
  have "xs ! j = drop (Suc i) xs ! (j - Suc i)"
    using assms by simp
  moreover have "j - Suc i < length (drop (Suc i) xs)"
    using assms by simp
  ultimately have "xs ! j \<in> set (drop (Suc i) xs)"
    by (metis nth_mem)
  then have "subseq [xs ! j] (drop (Suc i) xs)"
    by (simp add: subseq_singleton_left)
  then have "subseq (xs ! i # [xs ! j]) (xs ! i # drop (Suc i) xs)"
    by (rule subseq_Cons2)
  then have "subseq [xs ! i, xs ! j] (take i xs @ xs ! i # drop (Suc i) xs)"
    by (rule subseq_drop_many)
  then show ?thesis
    using id_take_nth_drop [OF i] by simp
qed

lemma returned_ties_prefix:
  "prefix
     (filter (\<lambda>x. confidence_score x = c)
        (snd (generateRecommendations supabase this weather timeOfDay limit)))
     (filter (\<lambda>x. confidence_score x = c) (candidates supabase this weather timeOfDay))"
proof -
  let ?cands = "candidates supabase this weather timeOfDay"
  let ?sorted = "sort_key (\<lambda>a. - confidence_score a) ?cands"
  have "filter (\<lambda>x. - confidence_score x = - c) ?sorted
      = filter (\<lambda>x. - confidence_score x = - c) ?cands"
    by (rule sort_key_stable)
  then have stable: "filter (\<lambda>x. confidence_score x = c) ?sorted
      = filter (\<lambda>x. confidence_score x = c) ?cands"
    by simp
  have "prefix (filter (\<lambda>x. confidence_score x = c) (Array_slice0 ?sorted limit))
      (filter (\<lambda>x. confidence_score x = c) ?sorted)"
    using Array_slice0_prefix by (rule filter_mono_prefix)
  then show ?thesis
    by (simp add: generateRecommendations_sorted stable)
qed

lemma routes_of_candidates:
  "map route (candidates supabase this weather timeOfDay) = getAllRoutes supabase"
  by (simp add: candidates_def comp_def route_recommendationFor)

text \<open>
  C4: the ranking is stable. For every score \<open>c\<close>, the returned recommendations with
  confidence score \<open>c\<close> are, in their order, the first of the candidates with that score in
  the order of the input routes; and two returned recommendations with equal scores, one
  before the other, have their routes in that order in the input list of routes.
\<close>

theorem ranking_is_stable:
  "prefix
     (filter (\<lambda>x. confidence_score x = c)
        (snd (generateRecommendations supabase this weather timeOfDay limit)))
     (filter (\<lambda>x. confidence_score x = c)
        (map (recommendationFor (loadUserData supabase this) weather timeOfDay)
           (getAllRoutes supabase)))
   \<and> (i < j \<and> j < length (snd (generateRecommendations supabase this weather timeOfDay limit))
       \<and> confidence_score (snd (generateRecommendations supabase this weather timeOfDay limit) ! i)
         = confidence_score (snd (generateRecommendations supabase this weather timeOfDay limit) ! j)
      \<longrightarrow> subseq
            [route (snd (generateRecommendations supabase this weather timeOfDay limit) ! i),
             route (snd (generateRecommendations supabase this weather timeOfDay limit) ! j)]
            (getAllRoutes supabase))"
proof (intro conjI impI)
  show "prefix
     (filter (\<lambda>x. confidence_score x = c)
        (snd (generateRecommendations supabase this weather timeOfDay limit)))
     (filter (\<lambda>x. confidence_score x = c)
        (map (recommendationFor (loadUserData supabase this) weather timeOfDay)
           (getAllRoutes supabase)))"
    using returned_ties_prefix [of c supabase this weather timeOfDay limit]
    by (simp add: candidates_def)
next
  let ?out = "snd (generateRecommendations supabase this weather timeOfDay limit)"
  let ?cands = "candidates supabase this weather timeOfDay"
  let ?P = "\<lambda>x. confidence_score x = confidence_score (?out ! i)"
  assume h: "i < j \<and> j < length ?out \<and> confidence_score (?out ! i) = confidence_score (?out ! j)"
  then have "subseq [?out ! i, ?out ! j] ?out"
    by (intro nth_pair_subseq) simp_all
  then have "subseq (filter ?P [?out ! i, ?out ! j]) (filter ?P ?out)"
    by (rule subseq_filter)
  then have "subseq [?out ! i, ?out ! j] (filter ?P ?out)"
    using h by simp
  also have "subseq (filter ?P ?out) (filter ?P ?cands)"
    using returned_ties_prefix by (rule prefix_imp_subseq)
  also have "subseq (filter ?P ?cands) ?cands"
    by (rule subseq_filter_left)
  finally have "subseq (map route [?out ! i, ?out ! j]) (map route ?cands)"
    by (rule subseq_map)
  then show "subseq [route (?out ! i), route (?out ! j)] (getAllRoutes supabase)"
    by (simp add: routes_of_candidates)
qed

lemma sample_confidence:
  "confidence_score (recommendationFor (loadUserData sampleStore (createRecommendationEngine ''u1''))
      sampleWeather ''morning'' parkLoop) = 0.745"
  "confidence_score (recommendationFor (loadUserData sampleStore (createRecommendationEngine ''u1''))
      sampleWeather ''morning'' riverside) = 0.775"
  "confidence_score (recommendationFor (loadUserData sampleStore (createRecommendationEngine ''u1''))
      sampleWeather ''morning'' parkLoopReverse) = 0.745"
  using sampleCandidates_scores
  by (simp_all add: candidates_def getAllRoutes_def sampleStore_def)

lemma sample_output:
  "snd (generateRecommendations sampleStore (createRecommendationEngine ''u1'')
      sampleWeather ''morning'' 6) =
     map (recommendationFor (loadUserData sampleStore (createRecommendationEngine ''u1''))
            sampleWeather ''morning'')
       [riverside, parkLoop, parkLoopReverse]"
proof -
  have routes: "getAllRoutes sampleStore = [parkLoop, riverside, parkLoopReverse]"
    by (simp add: getAllRoutes_def sampleStore_def)
  show ?thesis
    unfolding generateRecommendations_sorted candidates_def routes
    by (simp add: sample_confidence Array_slice0_def)
qed

theorem ranking_is_stable_witness:
  "(1::nat) < 2
   \<and> 2 < length (snd (generateRecommendations sampleStore (createRecommendationEngine ''u1'')
                        sampleWeather ''morning'' 6))
   \<and> confidence_score (snd (generateRecommendations sampleStore
          (createRecommendationEngine ''u1'') sampleWeather ''morning'' 6) ! 1)
     = confidence_score (snd (generateRecommendations sampleStore
          (createRecommendationEngine ''u1'') sampleWeather ''morning'' 6) ! 2)
   \<and> route (snd (generateRecommendations sampleStore (createRecommendationEngine ''u1'')
          sampleWeather ''morning'' 6) ! 1) = parkLoop
   \<and> route (snd (generateRecommendations sampleStore (createRecommendationEngine ''u1'')
          sampleWeather ''morning'' 6) ! 2) = parkLoopReverse
   \<and> getAllRoutes sampleStore = [parkLoop, riverside, parkLoopReverse]
   \<and> subseq [parkLoop, parkLoopReverse] (getAllRoutes sampleStore)"
proof -
  note st = ranking_is_stable [of "0.745" sampleStore "createRecommendationEngine ''u1''"
      sampleWeather "''morning''" 6 1 2]
  have routes: "getAllRoutes sampleStore = [parkLoop, riverside, parkLoopReverse]"
    by (simp add: getAllRoutes_def sampleStore_def)
  have "subseq [parkLoop, parkLoopReverse] (getAllRoutes sampleStore)"
    using st by (simp add: sample_output sample_confidence route_recommendationFor)
  then show ?thesis
    by (simp add: sample_output sample_confidence route_recommendationFor routes)
qed

subsection \<open>Number of recommendations\<close>

lemma length_returned:
  "length (snd (generateRecommendations supabase this weather timeOfDay limit)) =
     length (Array_slice0 (getAllRoutes supabase) limit)"
  by (simp add: generateRecommendations_sorted candidates_def Array_slice0_def Let_def)

lemma length_getFallbackRoutes: "length getFallbackRoutes = 8"
  by (simp add: getFallbackRoutes_def)

lemma getAllRoutes_unreachable: "getAllRoutes unreachableStore = getFallbackRoutes"
  by (simp add: getAllRoutes_def unreachableStore_def)

text \<open>
  C5, as the specification states it for every limit, does not hold: \<open>slice(0, limit)\<close>
  counts a negative limit from the end. With the eight built-in routes and the limit -1,
  seven recommendations are returned: more than the limit, and not \<open>min(limit, 8)\<close>.
\<close>

theorem negative_limit_counterexample:
  "length (getAllRoutes unreachableStore) = 8
   \<and> length (snd (generateRecommendations unreachableStore (createRecommendationEngine ''u1'')
        sampleWeather ''morning'' (- 1))) = 7
   \<and> \<not> int (length (snd (generateRecommendations unreachableStore
          (createRecommendationEngine ''u1'') sampleWeather ''morning'' (- 1)))) \<le> - 1
   \<and> int (length (snd (generateRecommendations unreachableStore
          (createRecommendationEngine ''u1'') sampleWeather ''morning'' (- 1))))
       \<noteq> min (- 1) (int (length (getAllRoutes unreachableStore)))"
  by (simp add: length_returned getAllRoutes_unreachable length_getFallbackRoutes
      Array_slice0_def Let_def)

text \<open>
  C5 as amended: for every list of candidate routes and every limit that is not negative,
  the number of recommendations returned is \<open>min(limit, candidateCount)\<close>, so at most
  \<open>limit\<close>; the candidates are the routes of the store or, when these are missing or empty,
  the built-in routes, and there is always at least one.
\<close>

theorem result_length:
  "0 \<le> limit \<Longrightarrow>
     int (length (snd (generateRecommendations supabase this weather timeOfDay limit)))
       = min limit (int (length (getAllRoutes supabase)))
     \<and> int (length (snd (generateRecommendations supabase this weather timeOfDay limit))) \<le> limit
     \<and> 0 < length (getAllRoutes supabase)"
proof -
  assume "0 \<le> limit"
  then have "int (length (snd (generateRecommendations supabase this weather timeOfDay limit)))
       = min limit (int (length (getAllRoutes supabase)))"
    by (simp add: length_returned length_Array_slice0)
  moreover have "0 < length (getAllRoutes supabase)"
    using length_getFallbackRoutes
    by (auto simp: getAllRoutes_def split: response.split option.split)
  ultimately show ?thesis
    by simp
qed

theorem result_length_witness:
  "(0::int) \<le> defaultLimit
   \<and> length (getAllRoutes unreachableStore) = 8
   \<and> length (snd (generateRecommendations unreachableStore (createRecommendationEngine ''u1'')
        sampleWeather ''morning'' defaultLimit)) = 6
   \<and> (0::int) \<le> 10
   \<and> length (snd (generateRecommendations unreachableStore (createRecommendationEngine ''u1'')
        sampleWeather ''morning'' 10)) = 8"
  using result_length [of defaultLimit unreachableStore "createRecommendationEngine ''u1''"
      sampleWeather "''morning''"]
    result_length [of 10 unreachableStore "createRecommendationEngine ''u1''"
      sampleWeather "''morning''"]
  by (simp add: defaultLimit_def getAllRoutes_unreachable length_getFallbackRoutes)

subsection \<open>Determinism\<close>

lemma recommendationFor_cong:
  assumes "userProfile a = userProfile b" "runningHistory a = runningHistory b"
  shows "recommendationFor a weather timeOfDay r = recommendationFor b weather timeOfDay r"
proof -
  have "calculateUserRouteMatch a r = calculateUserRouteMatch b r"
    using assms by (simp add: calculateUserRouteMatch_def)
  moreover have "calculateHistoryMatch a r = calculateHistoryMatch b r"
    using assms by (simp add: calculateHistoryMatch_def)
  moreover have "calculateNoveltyScore a r = calculateNoveltyScore b r"
    using assms by (simp add: calculateNoveltyScore_def)
  ultimately show ?thesis
    by (simp add: recommendationFor_def)
qed

lemma userId_loadUserData: "userId (loadUserData supabase this) = userId this"
  by (simp add: loadUserData_def Let_def split: response.split)

lemma loadUserData_idem:
  "loadUserData supabase (loadUserData supabase this) = loadUserData supabase this"
  by (cases "user_preferences_single supabase (userId this)";
      cases "user_activity_stats_single supabase (userId this)";
      cases "running_history_rows supabase (userId this)";
      simp add: loadUserData_def Let_def)

lemma fst_generateRecommendations:
  "fst (generateRecommendations supabase this weather timeOfDay limit) = loadUserData supabase this"
  by (simp add: generateRecommendations_def Let_def)

text \<open>
  C6: \<open>generateRecommendations\<close> is deterministic. The list returned depends only on the
  loaded user profile, the loaded history, the candidate routes, the weather, the time of
  day and the limit: two invocations that agree on these return the same ordered list,
  whatever else the engines held before. Calling it a second time on the same store with
  the same arguments gives the same result as the first call.
\<close>

theorem generateRecommendations_deterministic:
  "(userProfile (loadUserData supabase1 this1) = userProfile (loadUserData supabase2 this2)
      \<and> runningHistory (loadUserData supabase1 this1) = runningHistory (loadUserData supabase2 this2)
      \<and> getAllRoutes supabase1 = getAllRoutes supabase2
    \<longrightarrow> snd (generateRecommendations supabase1 this1 weather timeOfDay limit)
        = snd (generateRecommendations supabase2 this2 weather timeOfDay limit))
   \<and> generateRecommendations supabase
        (fst (generateRecommendations supabase this weather timeOfDay limit))
        weather timeOfDay limit
      = generateRecommendations supabase this weather timeOfDay limit"
proof (intro conjI impI)
  assume h: "userProfile (loadUserData supabase1 this1) = userProfile (loadUserData supabase2 this2)
      \<and> runningHistory (loadUserData supabase1 this1) = runningHistory (loadUserData supabase2 this2)
      \<and> getAllRoutes supabase1 = getAllRoutes supabase2"
  then have "recommendationFor (loadUserData supabase1 this1) weather timeOfDay
      = recommendationFor (loadUserData supabase2 this2) weather timeOfDay"
    by (intro ext recommendationFor_cong) simp_all
  then show "snd (generateRecommendations supabase1 this1 weather timeOfDay limit)
        = snd (generateRecommendations supabase2 this2 weather timeOfDay limit)"
    using h by (simp add: generateRecommendations_def Let_def)
next
  show "generateRecommendations supabase
        (fst (generateRecommendations supabase this weather timeOfDay limit))
        weather timeOfDay limit
      = generateRecommendations supabase this weather timeOfDay limit"
    unfolding fst_generateRecommendations
    by (simp add: generateRecommendations_def Let_def loadUserData_idem)
qed

theorem generateRecommendations_deterministic_witness:
  "userProfile (loadUserData sampleStore (createRecommendationEngine ''u1'')) = None
   \<and> userProfile (loadUserData sampleStore staleEngine) = None
   \<and> runningHistory (loadUserData sampleStore (createRecommendationEngine ''u1'')) = []
   \<and> runningHistory (loadUserData sampleStore staleEngine) = []
   \<and> createRecommendationEngine ''u1'' \<noteq> staleEngine
   \<and> snd (generateRecommendations sampleStore (createRecommendationEngine ''u1'') sampleWeather
          ''morning'' 6)
       = snd (generateRecommendations sampleStore staleEngine sampleWeather ''morning'' 6)"
proof -
  have l: "userProfile (loadUserData sampleStore (createRecommendationEngine ''u1'')) = None"
      "userProfile (loadUserData sampleStore staleEngine) = None"
      "runningHistory (loadUserData sampleStore (createRecommendationEngine ''u1'')) = []"
      "runningHistory (loadUserData sampleStore staleEngine) = []"
    by (simp_all add: loadUserData_def sampleStore_def)
  have d: "createRecommendationEngine ''u1'' \<noteq> staleEngine"
    by (simp add: createRecommendationEngine_def staleEngine_def)
  show ?thesis
    using generateRecommendations_deterministic [of sampleStore "createRecommendationEngine ''u1''"
        sampleStore staleEngine sampleWeather "''morning''" 6] l d
    by simp
qed

end
